theory Spec2Isabelle
  imports Main "HOL-Library.Word"
begin

unbundle bit_operations_syntax

section \<open>The Feishu group-robot channel (src/lib/channels/feishu.ts)\<close>

text \<open>
  The channel is one class, \<^verbatim>\<open>FeishuChannel\<close>, with a static configuration (label and
  message templates), and one side-effecting method, \<^verbatim>\<open>sendMessage\<close>, which checks the
  webhook, parses string-encoded payload fields, signs the message when a secret is given
  and posts it. The signature comes from the module function \<^verbatim>\<open>generateFeishuSign\<close>.

  Conventions of the embedding:
  \<^item> a JavaScript string is held as the bytes of its UTF-8 form (\<^typ>\<open>string\<close>), so a
    literal with CJK text is a list of bytes and \<^verbatim>\<open>TextEncoder.encode\<close> reads the bytes off;
  \<^item> a byte and a 32-bit word are naturals with the wrap-around written out;
  \<^item> a thrown error or a rejected promise is the \<open>Inl\<close> of a sum;
  \<^item> the platform functions the file calls (WebCrypto HMAC with SHA-256, \<^verbatim>\<open>btoa\<close>,
    \<^verbatim>\<open>JSON.parse\<close>, number printing) are written out from their standards, since
    what the channel does is stated in terms of what they compute.
\<close>

subsection \<open>Errors\<close>

text \<open>
  \<open>Error m\<close> is \<^verbatim>\<open>new Error(m)\<close>, thrown by the file itself. The other three are
  raised by the platform: \<open>SyntaxError\<close> by \<^verbatim>\<open>JSON.parse\<close> and \<^verbatim>\<open>response.json()\<close>
  on text that is not JSON, \<open>TypeError\<close> by a property read on \<^verbatim>\<open>null\<close> and by a
  \<^verbatim>\<open>fetch\<close> that cannot reach the network, \<open>DataError\<close> by
  \<^verbatim>\<open>crypto.subtle.importKey\<close> on an HMAC key of length zero.
\<close>

datatype error = Error string | SyntaxError | TypeError | DataError

subsection \<open>SHA-256 and HMAC (FIPS 180-4, RFC 2104), as WebCrypto computes them\<close>

type_synonym byte = nat
type_synonym u32 = nat

definition add32 :: "u32 \<Rightarrow> u32 \<Rightarrow> u32" where
  "add32 x y = (x + y) mod 4294967296"

definition rotr :: "nat \<Rightarrow> u32 \<Rightarrow> u32" where
  "rotr n x = x div 2 ^ n + (x mod 2 ^ n) * 2 ^ (32 - n)"

definition shr :: "nat \<Rightarrow> u32 \<Rightarrow> u32" where
  "shr n x = x div 2 ^ n"

definition not32 :: "u32 \<Rightarrow> u32" where
  "not32 x = 4294967295 - x"

definition Ch :: "u32 \<Rightarrow> u32 \<Rightarrow> u32 \<Rightarrow> u32" where
  "Ch x y z = (x AND y) XOR (not32 x AND z)"

definition Maj :: "u32 \<Rightarrow> u32 \<Rightarrow> u32 \<Rightarrow> u32" where
  "Maj x y z = (x AND y) XOR (x AND z) XOR (y AND z)"

definition bsig0 :: "u32 \<Rightarrow> u32" where
  "bsig0 x = rotr 2 x XOR rotr 13 x XOR rotr 22 x"

definition bsig1 :: "u32 \<Rightarrow> u32" where
  "bsig1 x = rotr 6 x XOR rotr 11 x XOR rotr 25 x"

definition ssig0 :: "u32 \<Rightarrow> u32" where
  "ssig0 x = rotr 7 x XOR rotr 18 x XOR shr 3 x"

definition ssig1 :: "u32 \<Rightarrow> u32" where
  "ssig1 x = rotr 17 x XOR rotr 19 x XOR shr 10 x"

definition K256 :: "u32 list" where
  "K256 = [
   0x428A2F98, 0x71374491, 0xB5C0FBCF, 0xE9B5DBA5, 0x3956C25B, 0x59F111F1, 0x923F82A4, 0xAB1C5ED5,
   0xD807AA98, 0x12835B01, 0x243185BE, 0x550C7DC3, 0x72BE5D74, 0x80DEB1FE, 0x9BDC06A7, 0xC19BF174,
   0xE49B69C1, 0xEFBE4786, 0x0FC19DC6, 0x240CA1CC, 0x2DE92C6F, 0x4A7484AA, 0x5CB0A9DC, 0x76F988DA,
   0x983E5152, 0xA831C66D, 0xB00327C8, 0xBF597FC7, 0xC6E00BF3, 0xD5A79147, 0x06CA6351, 0x14292967,
   0x27B70A85, 0x2E1B2138, 0x4D2C6DFC, 0x53380D13, 0x650A7354, 0x766A0ABB, 0x81C2C92E, 0x92722C85,
   0xA2BFE8A1, 0xA81A664B, 0xC24B8B70, 0xC76C51A3, 0xD192E819, 0xD6990624, 0xF40E3585, 0x106AA070,
   0x19A4C116, 0x1E376C08, 0x2748774C, 0x34B0BCB5, 0x391C0CB3, 0x4ED8AA4A, 0x5B9CCA4F, 0x682E6FF3,
   0x748F82EE, 0x78A5636F, 0x84C87814, 0x8CC70208, 0x90BEFFFA, 0xA4506CEB, 0xBEF9A3F7, 0xC67178F2]"

definition H256 :: "u32 list" where
  "H256 = [0x6a09e667, 0xbb67ae85, 0x3c6ef372, 0xa54ff53a,
           0x510e527f, 0x9b05688c, 0x1f83d9ab, 0x5be0cd19]"

text \<open>
  The message schedule is kept as a window of sixteen words: the head is the word of the
  current round, and each round appends the word sixteen rounds ahead.
\<close>

definition next_w :: "u32 list \<Rightarrow> u32" where
  "next_w w = add32 (add32 (ssig1 (w ! 14)) (w ! 9)) (add32 (ssig0 (w ! 1)) (w ! 0))"

fun round256 :: "u32 list \<Rightarrow> u32 \<Rightarrow> u32 \<Rightarrow> u32 list" where
  "round256 [a, b, c, d, e, f, g, h] k w =
     (let t1 = add32 (add32 (add32 h (bsig1 e)) (add32 (Ch e f g) k)) w;
          t2 = add32 (bsig0 a) (Maj a b c)
      in [add32 t1 t2, a, b, c, add32 d t1, e, f, g])"
| "round256 s _ _ = s"

fun rounds :: "u32 list \<Rightarrow> u32 list \<Rightarrow> u32 list \<Rightarrow> u32 list" where
  "rounds [] w s = s"
| "rounds (k # ks) w s = rounds ks (tl w @ [next_w w]) (round256 s k (hd w))"

definition compress :: "u32 list \<Rightarrow> u32 list \<Rightarrow> u32 list" where
  "compress hs blk = map2 add32 hs (rounds K256 blk hs)"

definition be64 :: "nat \<Rightarrow> byte list" where
  "be64 n = [n div 2 ^ 56 mod 256, n div 2 ^ 48 mod 256, n div 2 ^ 40 mod 256,
             n div 2 ^ 32 mod 256, n div 2 ^ 24 mod 256, n div 2 ^ 16 mod 256,
             n div 2 ^ 8 mod 256, n mod 256]"

definition sha256_pad :: "byte list \<Rightarrow> byte list" where
  "sha256_pad m =
     m @ [0x80] @ replicate ((119 - length m mod 64) mod 64) 0 @ be64 (8 * length m)"

fun words_of_bytes :: "byte list \<Rightarrow> u32 list" where
  "words_of_bytes (a # b # c # d # rest) =
     (a * 2 ^ 24 + b * 2 ^ 16 + c * 2 ^ 8 + d) # words_of_bytes rest"
| "words_of_bytes _ = []"

definition bytes_of_word :: "u32 \<Rightarrow> byte list" where
  "bytes_of_word w = [w div 2 ^ 24, w div 2 ^ 16 mod 256, w div 2 ^ 8 mod 256, w mod 256]"

fun blocks :: "u32 list \<Rightarrow> u32 list list" where
  "blocks ws = (if ws = [] then [] else take 16 ws # blocks (drop 16 ws))"

definition sha256 :: "byte list \<Rightarrow> byte list" where
  "sha256 m =
     concat (map bytes_of_word (foldl compress H256 (blocks (words_of_bytes (sha256_pad m)))))"

text \<open>
  \<^verbatim>\<open>crypto.subtle.sign('HMAC', key, data)\<close> with a key imported for SHA-256: a key
  longer than the 64-byte block is hashed first, then padded with zeros to the block.
\<close>

definition hmac_sha256 :: "byte list \<Rightarrow> byte list \<Rightarrow> byte list" where
  "hmac_sha256 key data =
     (let k0 = (if 64 < length key then sha256 key else key);
          k = k0 @ replicate (64 - length k0) 0
      in sha256 (map (\<lambda>b. b XOR 0x5c) k @ sha256 (map (\<lambda>b. b XOR 0x36) k @ data)))"

subsection \<open>Strings to bytes and back\<close>

text \<open>\<^verbatim>\<open>new TextEncoder().encode(s)\<close>: the UTF-8 bytes of the string.\<close>

definition encode :: "string \<Rightarrow> byte list" where
  "encode s = map of_char s"

definition b64chars :: string where
  "b64chars = ''ABCDEFGHIJKLMNOPQRSTUVWXYZabcdefghijklmnopqrstuvwxyz0123456789+/''"

text \<open>
  \<^verbatim>\<open>btoa(String.fromCharCode(...bytes))\<close>: the string built from the bytes has one
  character per byte, and \<^verbatim>\<open>btoa\<close> is base64 with padding over those characters.
\<close>

fun btoa :: "byte list \<Rightarrow> string" where
  "btoa (a # b # c # rest) =
     [b64chars ! (a div 4), b64chars ! (a mod 4 * 16 + b div 16),
      b64chars ! (b mod 16 * 4 + c div 64), b64chars ! (c mod 64)] @ btoa rest"
| "btoa [a, b] =
     [b64chars ! (a div 4), b64chars ! (a mod 4 * 16 + b div 16),
      b64chars ! (b mod 16 * 4), CHR ''='']"
| "btoa [a] = [b64chars ! (a div 4), b64chars ! (a mod 4 * 16), CHR ''='', CHR ''='']"
| "btoa [] = []"

subsection \<open>generateFeishuSign\<close>

text \<open>
  \<^verbatim>\<open>
  const key = await crypto.subtle.importKey('raw', encoder.encode(secret),
                { name: 'HMAC', hash: 'SHA-256' }, false, ['sign']);
  const signature = await crypto.subtle.sign('HMAC', key,
                encoder.encode(timestamp + "\n" + secret));
  return btoa(String.fromCharCode(...new Uint8Array(signature)));
  \<close>
  The imported key is the secret; the signed data is timestamp, line feed, secret.
  \<^verbatim>\<open>importKey\<close> rejects raw HMAC key data of length zero with a DataError.
\<close>

definition importKey :: "byte list \<Rightarrow> error + byte list" where
  "importKey keyData = (if keyData = [] then Inl DataError else Inr keyData)"

definition generateFeishuSign :: "string \<Rightarrow> string \<Rightarrow> error + string" where
  "generateFeishuSign secret timestamp =
     (case importKey (encode secret) of
        Inl e \<Rightarrow> Inl e
      | Inr key \<Rightarrow>
          (let signature = hmac_sha256 key (encode (timestamp @ [CHR 0x0A] @ secret))
           in Inr (btoa signature)))"

text \<open>
  The construction the specification words: the secret as the message to authenticate,
  timestamp, line feed, secret as the key material.
\<close>

definition spec_sign :: "string \<Rightarrow> string \<Rightarrow> string" where
  "spec_sign secret timestamp =
     btoa (hmac_sha256 (encode (timestamp @ [CHR 0x0A] @ secret)) (encode secret))"


subsection \<open>The channel configuration\<close>

text \<open>
  \<^verbatim>\<open>ChannelConfig\<close> is imported from \<^verbatim>\<open>./base\<close>; the records below have the fields
  the literal in this file gives. A field the literal leaves out is \<open>None\<close>. The two
  placeholders are the values of their \<^verbatim>\<open>JSON.stringify\<close> calls on the literals in the
  source: compact for the rich text, indented by two spaces for the card.
\<close>

datatype component = textarea | hidden

record FieldSpec =
  key :: string
  description :: "string option"
  required :: "bool option"
  component :: "component option"
  defaultValue :: "string option"
  placeholder :: "string option"

record MessageTemplate =
  template_type :: string
  template_name :: string
  template_description :: string
  template_fields :: "FieldSpec list"

record ChannelConfig =
  channel_type :: string
  label :: string
  templates :: "MessageTemplate list"


text \<open>The label: ``Feishu group robot''.\<close>

definition label_text :: string where
  \<open>label_text =
     [CHR 0xE9, CHR 0xA3, CHR 0x9E, CHR 0xE4, CHR 0xB9, CHR 0xA6, CHR 0xE7, CHR 0xBE, CHR 0xA4, CHR 0xE6, CHR 0x9C, CHR 0xBA]
     @ [CHR 0xE5, CHR 0x99, CHR 0xA8, CHR 0xE4, CHR 0xBA, CHR 0xBA]\<close>

text \<open>``Text message''.\<close>

definition text_name :: string where
  \<open>text_name =
     [CHR 0xE6, CHR 0x96, CHR 0x87, CHR 0xE6, CHR 0x9C, CHR 0xAC, CHR 0xE6, CHR 0xB6, CHR 0x88, CHR 0xE6, CHR 0x81, CHR 0xAF]\<close>

text \<open>``Simple text message''.\<close>

definition text_description :: string where
  \<open>text_description =
     [CHR 0xE7, CHR 0xAE, CHR 0x80, CHR 0xE5, CHR 0x8D, CHR 0x95, CHR 0xE6, CHR 0x96, CHR 0x87, CHR 0xE6, CHR 0x9C, CHR 0xAC]
     @ [CHR 0xE6, CHR 0xB6, CHR 0x88, CHR 0xE6, CHR 0x81, CHR 0xAF]\<close>

text \<open>``Text content''.\<close>

definition text_content_description :: string where
  \<open>text_content_description =
     [CHR 0xE6, CHR 0x96, CHR 0x87, CHR 0xE6, CHR 0x9C, CHR 0xAC, CHR 0xE5, CHR 0x86, CHR 0x85, CHR 0xE5, CHR 0xAE, CHR 0xB9]\<close>

text \<open>``Rich text message''.\<close>

definition post_name :: string where
  \<open>post_name =
     [CHR 0xE5, CHR 0xAF, CHR 0x8C, CHR 0xE6, CHR 0x96, CHR 0x87, CHR 0xE6, CHR 0x9C, CHR 0xAC, CHR 0xE6, CHR 0xB6, CHR 0x88]
     @ [CHR 0xE6, CHR 0x81, CHR 0xAF]\<close>

text \<open>``Rich text message with a title and formatted content''.\<close>

definition post_description :: string where
  \<open>post_description =
     [CHR 0xE6, CHR 0x94, CHR 0xAF, CHR 0xE6, CHR 0x8C, CHR 0x81, CHR 0xE6, CHR 0xA0, CHR 0x87, CHR 0xE9, CHR 0xA2, CHR 0x98]
     @ [CHR 0xE5, CHR 0x92, CHR 0x8C, CHR 0xE6, CHR 0xA0, CHR 0xBC, CHR 0xE5, CHR 0xBC, CHR 0x8F, CHR 0xE5, CHR 0x8C, CHR 0x96]
     @ [CHR 0xE5, CHR 0x86, CHR 0x85, CHR 0xE5, CHR 0xAE, CHR 0xB9, CHR 0xE7, CHR 0x9A, CHR 0x84, CHR 0xE5, CHR 0xAF, CHR 0x8C]
     @ [CHR 0xE6, CHR 0x96, CHR 0x87, CHR 0xE6, CHR 0x9C, CHR 0xAC, CHR 0xE6, CHR 0xB6, CHR 0x88, CHR 0xE6, CHR 0x81, CHR 0xAF]\<close>

text \<open>``Title''.\<close>

definition post_title_description :: string where
  \<open>post_title_description =
     [CHR 0xE6, CHR 0xA0, CHR 0x87, CHR 0xE9, CHR 0xA2, CHR 0x98]\<close>

text \<open>``Rich text content (JSON format)'', with a link to the Feishu documentation.\<close>

definition post_content_description :: string where
  \<open>post_content_description =
     [CHR 0xE5, CHR 0xAF, CHR 0x8C, CHR 0xE6, CHR 0x96, CHR 0x87, CHR 0xE6, CHR 0x9C, CHR 0xAC, CHR 0xE5, CHR 0x86, CHR 0x85]
     @ [CHR 0xE5, CHR 0xAE, CHR 0xB9] @ ''(JSON''
     @ [CHR 0xE6, CHR 0xA0, CHR 0xBC, CHR 0xE5, CHR 0xBC, CHR 0x8F] @ ''), ''
     @ [CHR 0xE5, CHR 0x85, CHR 0xB7, CHR 0xE4, CHR 0xBD, CHR 0x93, CHR 0xE6, CHR 0xA0, CHR 0xBC, CHR 0xE5, CHR 0xBC, CHR 0x8F]
     @ [CHR 0xE8, CHR 0xAF, CHR 0xB7, CHR 0xE5, CHR 0x8F, CHR 0x82, CHR 0xE8, CHR 0x80, CHR 0x83]
     @ ''<a target='' @ [CHR 0x27] @ ''_blank'' @ [CHR 0x27] @ '' href='' @ [CHR 0x27]
     @ ''https://open.feishu.cn/document/client-docs/bot-v3/add-custom-bot#f62e'' @ ''72d5''
     @ [CHR 0x27] @ ''>''
     @ [CHR 0xE9, CHR 0xA3, CHR 0x9E, CHR 0xE4, CHR 0xB9, CHR 0xA6, CHR 0xE6, CHR 0x96, CHR 0x87, CHR 0xE6, CHR 0xA1, CHR 0xA3]
     @ ''</a>''\<close>

text \<open>The sample rich text: one paragraph with a text, a link and a mention.\<close>

definition post_content_placeholder :: string where
  \<open>post_content_placeholder =
     ''[[{"tag":"text","text":"''
     @ [CHR 0xE9, CHR 0xA1, CHR 0xB9, CHR 0xE7, CHR 0x9B, CHR 0xAE, CHR 0xE6, CHR 0x9C, CHR 0x89, CHR 0xE6, CHR 0x9B, CHR 0xB4]
     @ [CHR 0xE6, CHR 0x96, CHR 0xB0] @ '': "},{"tag":"a","text":"''
     @ [CHR 0xE8, CHR 0xAF, CHR 0xB7, CHR 0xE6, CHR 0x9F, CHR 0xA5, CHR 0xE7, CHR 0x9C, CHR 0x8B]
     @ ''","href":"http://www.example.com/"},{"tag":"at","user_id":"ou_18eac8**''
     @ ''******17ad4f02e8bbbb"}]]''\<close>

text \<open>``Interactive card''.\<close>

definition interactive_name :: string where
  \<open>interactive_name =
     [CHR 0xE4, CHR 0xBA, CHR 0xA4, CHR 0xE4, CHR 0xBA, CHR 0x92, CHR 0xE5, CHR 0xBC, CHR 0x8F, CHR 0xE5, CHR 0x8D, CHR 0xA1]
     @ [CHR 0xE7, CHR 0x89, CHR 0x87]\<close>

text \<open>``Card message with rich interactive elements''.\<close>

definition interactive_description :: string where
  \<open>interactive_description =
     [CHR 0xE6, CHR 0x94, CHR 0xAF, CHR 0xE6, CHR 0x8C, CHR 0x81, CHR 0xE4, CHR 0xB8, CHR 0xB0, CHR 0xE5, CHR 0xAF, CHR 0x8C]
     @ [CHR 0xE4, CHR 0xBA, CHR 0xA4, CHR 0xE4, CHR 0xBA, CHR 0x92, CHR 0xE5, CHR 0x85, CHR 0x83, CHR 0xE7, CHR 0xB4, CHR 0xA0]
     @ [CHR 0xE7, CHR 0x9A, CHR 0x84, CHR 0xE5, CHR 0x8D, CHR 0xA1, CHR 0xE7, CHR 0x89, CHR 0x87, CHR 0xE6, CHR 0xB6, CHR 0x88]
     @ [CHR 0xE6, CHR 0x81, CHR 0xAF]\<close>

text \<open>``Card content (JSON format)'', with a link to the Feishu card documentation.\<close>

definition card_description :: string where
  \<open>card_description =
     [CHR 0xE5, CHR 0x8D, CHR 0xA1, CHR 0xE7, CHR 0x89, CHR 0x87, CHR 0xE5, CHR 0x86, CHR 0x85, CHR 0xE5, CHR 0xAE, CHR 0xB9]
     @ ''(JSON'' @ [CHR 0xE6, CHR 0xA0, CHR 0xBC, CHR 0xE5, CHR 0xBC, CHR 0x8F] @ ''), ''
     @ [CHR 0xE5, CHR 0x85, CHR 0xB7, CHR 0xE4, CHR 0xBD, CHR 0x93, CHR 0xE6, CHR 0xA0, CHR 0xBC, CHR 0xE5, CHR 0xBC, CHR 0x8F]
     @ [CHR 0xE8, CHR 0xAF, CHR 0xB7, CHR 0xE5, CHR 0x8F, CHR 0x82, CHR 0xE8, CHR 0x80, CHR 0x83]
     @ ''<a target='' @ [CHR 0x27] @ ''_blank'' @ [CHR 0x27] @ '' href='' @ [CHR 0x27]
     @ ''https://open.feishu.cn/document/ukTMukTMukTM/ugTNwUjL4UDM14CO1ATN'' @ [CHR 0x27] @ ''>''
     @ [CHR 0xE9, CHR 0xA3, CHR 0x9E, CHR 0xE4, CHR 0xB9, CHR 0xA6, CHR 0xE5, CHR 0x8D, CHR 0xA1, CHR 0xE7, CHR 0x89, CHR 0x87]
     @ [CHR 0xE6, CHR 0x96, CHR 0x87, CHR 0xE6, CHR 0xA1, CHR 0xA3] @ ''</a>''\<close>

text \<open>The sample card: a wide-screen card with a text block, a button and a blue header.\<close>

definition card_placeholder :: string where
  \<open>card_placeholder =
     ''{'' @ [CHR 0x0A] @ ''  "config": {'' @ [CHR 0x0A] @ ''    "wide_screen_mode": true''
     @ [CHR 0x0A] @ ''  },'' @ [CHR 0x0A] @ ''  "elements": ['' @ [CHR 0x0A] @ ''    {''
     @ [CHR 0x0A] @ ''      "tag": "div",'' @ [CHR 0x0A] @ ''      "text": {'' @ [CHR 0x0A]
     @ ''        "content": "''
     @ [CHR 0xE8, CHR 0xBF, CHR 0x99, CHR 0xE6, CHR 0x98, CHR 0xAF, CHR 0xE4, CHR 0xB8, CHR 0x80, CHR 0xE4, CHR 0xB8, CHR 0xAA]
     @ [CHR 0xE4, CHR 0xBA, CHR 0xA4, CHR 0xE4, CHR 0xBA, CHR 0x92, CHR 0xE5, CHR 0xBC, CHR 0x8F, CHR 0xE5, CHR 0x8D, CHR 0xA1]
     @ [CHR 0xE7, CHR 0x89, CHR 0x87, CHR 0xE7, CHR 0xA4, CHR 0xBA, CHR 0xE4, CHR 0xBE, CHR 0x8B]
     @ ''",'' @ [CHR 0x0A] @ ''        "tag": "lark_md"'' @ [CHR 0x0A] @ ''      }'' @ [CHR 0x0A]
     @ ''    },'' @ [CHR 0x0A] @ ''    {'' @ [CHR 0x0A] @ ''      "tag": "action",'' @ [CHR 0x0A]
     @ ''      "actions": ['' @ [CHR 0x0A] @ ''        {'' @ [CHR 0x0A]
     @ ''          "tag": "button",'' @ [CHR 0x0A] @ ''          "text": {'' @ [CHR 0x0A]
     @ ''            "tag": "plain_text",'' @ [CHR 0x0A] @ ''            "content": "''
     @ [CHR 0xE6, CHR 0x9F, CHR 0xA5, CHR 0xE7, CHR 0x9C, CHR 0x8B, CHR 0xE8, CHR 0xAF, CHR 0xA6, CHR 0xE6, CHR 0x83, CHR 0x85]
     @ ''"'' @ [CHR 0x0A] @ ''          },'' @ [CHR 0x0A]
     @ ''          "url": "https://example.com",'' @ [CHR 0x0A] @ ''          "type": "default"''
     @ [CHR 0x0A] @ ''        }'' @ [CHR 0x0A] @ ''      ]'' @ [CHR 0x0A] @ ''    }''
     @ [CHR 0x0A] @ ''  ],'' @ [CHR 0x0A] @ ''  "header": {'' @ [CHR 0x0A] @ ''    "title": {''
     @ [CHR 0x0A] @ ''      "content": "''
     @ [CHR 0xE9, CHR 0x80, CHR 0x9A, CHR 0xE7, CHR 0x9F, CHR 0xA5, CHR 0xE6, CHR 0xA0, CHR 0x87, CHR 0xE9, CHR 0xA2, CHR 0x98]
     @ ''",'' @ [CHR 0x0A] @ ''      "tag": "plain_text"'' @ [CHR 0x0A] @ ''    },'' @ [CHR 0x0A]
     @ ''    "template": "blue"'' @ [CHR 0x0A] @ ''  }'' @ [CHR 0x0A] @ ''}''\<close>

definition text_template :: MessageTemplate where
  "text_template =
     \<lparr>template_type = ''text'', template_name = text_name,
      template_description = text_description,
      template_fields =
        [\<lparr>key = ''content.text'', description = Some text_content_description,
          required = Some True, component = Some textarea, defaultValue = None,
          placeholder = None\<rparr>,
         \<lparr>key = ''msg_type'', description = None, required = None,
          component = Some hidden, defaultValue = Some ''text'', placeholder = None\<rparr>]\<rparr>"

definition post_template :: MessageTemplate where
  "post_template =
     \<lparr>template_type = ''post'', template_name = post_name,
      template_description = post_description,
      template_fields =
        [\<lparr>key = ''content.post.zh_cn.title'', description = Some post_title_description,
          required = Some True, component = None, defaultValue = None, placeholder = None\<rparr>,
         \<lparr>key = ''content.post.zh_cn.content'',
          description = Some post_content_description, required = Some True,
          component = Some textarea, defaultValue = None,
          placeholder = Some post_content_placeholder\<rparr>,
         \<lparr>key = ''msg_type'', description = None, required = None,
          component = Some hidden, defaultValue = Some ''post'', placeholder = None\<rparr>]\<rparr>"

definition interactive_template :: MessageTemplate where
  "interactive_template =
     \<lparr>template_type = ''interactive'', template_name = interactive_name,
      template_description = interactive_description,
      template_fields =
        [\<lparr>key = ''content.card'', description = Some card_description,
          required = Some True, component = Some textarea, defaultValue = None,
          placeholder = Some card_placeholder\<rparr>,
         \<lparr>key = ''msg_type'', description = None, required = None,
          component = Some hidden, defaultValue = Some ''interactive'',
          placeholder = None\<rparr>]\<rparr>"

text \<open>The class: its one field, the initialiser of that field, and the two getters.\<close>

record FeishuChannel =
  config :: ChannelConfig

definition new_FeishuChannel :: FeishuChannel where
  "new_FeishuChannel =
     \<lparr>config =
        \<lparr>channel_type = ''feishu'', label = label_text,
         templates = [text_template, post_template, interactive_template]\<rparr>\<rparr>"

definition getLabel :: "FeishuChannel \<Rightarrow> string" where
  "getLabel this = label (config this)"

definition getTemplates :: "FeishuChannel \<Rightarrow> MessageTemplate list" where
  "getTemplates this = templates (config this)"

text \<open>The fields of a template that the form does not show.\<close>

definition hidden_fields :: "MessageTemplate \<Rightarrow> FieldSpec list" where
  "hidden_fields t = filter (\<lambda>f. component f = Some hidden) (template_fields t)"


subsection \<open>The texts of the errors the file throws\<close>


text \<open>``The Feishu robot webhook must not be empty''.\<close>

definition webhook_empty_error :: string where
  \<open>webhook_empty_error =
     [CHR 0xE9, CHR 0xA3, CHR 0x9E, CHR 0xE4, CHR 0xB9, CHR 0xA6, CHR 0xE6, CHR 0x9C, CHR 0xBA, CHR 0xE5, CHR 0x99, CHR 0xA8]
     @ [CHR 0xE4, CHR 0xBA, CHR 0xBA] @ '' Webhook ''
     @ [CHR 0xE4, CHR 0xB8, CHR 0x8D, CHR 0xE8, CHR 0x83, CHR 0xBD, CHR 0xE4, CHR 0xB8, CHR 0xBA, CHR 0xE7, CHR 0xA9, CHR 0xBA]\<close>

text \<open>``The rich text content is malformed, please give valid JSON''.\<close>

definition post_format_error :: string where
  \<open>post_format_error =
     [CHR 0xE5, CHR 0xAF, CHR 0x8C, CHR 0xE6, CHR 0x96, CHR 0x87, CHR 0xE6, CHR 0x9C, CHR 0xAC, CHR 0xE5, CHR 0x86, CHR 0x85]
     @ [CHR 0xE5, CHR 0xAE, CHR 0xB9, CHR 0xE6, CHR 0xA0, CHR 0xBC, CHR 0xE5, CHR 0xBC, CHR 0x8F, CHR 0xE4, CHR 0xB8, CHR 0x8D]
     @ [CHR 0xE6, CHR 0xAD, CHR 0xA3, CHR 0xE7, CHR 0xA1, CHR 0xAE, CHR 0xEF, CHR 0xBC, CHR 0x8C, CHR 0xE8, CHR 0xAF, CHR 0xB7]
     @ [CHR 0xE6, CHR 0x8F, CHR 0x90, CHR 0xE4, CHR 0xBE, CHR 0x9B, CHR 0xE6, CHR 0x9C, CHR 0x89, CHR 0xE6, CHR 0x95, CHR 0x88]
     @ [CHR 0xE7, CHR 0x9A, CHR 0x84] @ ''JSON''
     @ [CHR 0xE6, CHR 0xA0, CHR 0xBC, CHR 0xE5, CHR 0xBC, CHR 0x8F]\<close>

text \<open>``The interactive card content is malformed, please give valid JSON''.\<close>

definition card_format_error :: string where
  \<open>card_format_error =
     [CHR 0xE4, CHR 0xBA, CHR 0xA4, CHR 0xE4, CHR 0xBA, CHR 0x92, CHR 0xE5, CHR 0xBC, CHR 0x8F, CHR 0xE5, CHR 0x8D, CHR 0xA1]
     @ [CHR 0xE7, CHR 0x89, CHR 0x87, CHR 0xE5, CHR 0x86, CHR 0x85, CHR 0xE5, CHR 0xAE, CHR 0xB9, CHR 0xE6, CHR 0xA0, CHR 0xBC]
     @ [CHR 0xE5, CHR 0xBC, CHR 0x8F, CHR 0xE4, CHR 0xB8, CHR 0x8D, CHR 0xE6, CHR 0xAD, CHR 0xA3, CHR 0xE7, CHR 0xA1, CHR 0xAE]
     @ [CHR 0xEF, CHR 0xBC, CHR 0x8C, CHR 0xE8, CHR 0xAF, CHR 0xB7, CHR 0xE6, CHR 0x8F, CHR 0x90, CHR 0xE4, CHR 0xBE, CHR 0x9B]
     @ [CHR 0xE6, CHR 0x9C, CHR 0x89, CHR 0xE6, CHR 0x95, CHR 0x88, CHR 0xE7, CHR 0x9A, CHR 0x84]
     @ ''JSON'' @ [CHR 0xE6, CHR 0xA0, CHR 0xBC, CHR 0xE5, CHR 0xBC, CHR 0x8F]\<close>

text \<open>``Feishu message push failed: '', the text before the interpolated \<^verbatim>\<open>data.msg\<close>.\<close>

definition push_failed_prefix :: string where
  \<open>push_failed_prefix =
     [CHR 0xE9, CHR 0xA3, CHR 0x9E, CHR 0xE4, CHR 0xB9, CHR 0xA6, CHR 0xE6, CHR 0xB6, CHR 0x88, CHR 0xE6, CHR 0x81, CHR 0xAF]
     @ [CHR 0xE6, CHR 0x8E, CHR 0xA8, CHR 0xE9, CHR 0x80, CHR 0x81, CHR 0xE5, CHR 0xA4, CHR 0xB1, CHR 0xE8, CHR 0xB4, CHR 0xA5]
     @ '': ''\<close>

subsection \<open>JSON values and \<^verbatim>\<open>JSON.parse\<close> (ECMA-404)\<close>

text \<open>
  A parsed value. An object keeps its members as written, in order; reading a property
  takes the last member with that name, as a repeated name overwrites the earlier one.
  A number keeps its numeral: the double it denotes and the printing of that double are
  floating point and are not modelled, and no statement below depends on them.
\<close>

datatype json =
    JNull
  | JBool bool
  | JNum string
  | JStr string
  | JArr "json list"
  | JObj "(string \<times> json) list"

datatype token =
    TLBrace | TRBrace | TLBrack | TRBrack | TColon | TComma
  | TTrue | TFalse | TNull
  | TNum string
  | TStr string

definition is_ws :: "char \<Rightarrow> bool" where
  "is_ws c = (c = CHR 0x20 \<or> c = CHR 0x09 \<or> c = CHR 0x0A \<or> c = CHR 0x0D)"

definition is_digit :: "char \<Rightarrow> bool" where
  "is_digit c = (48 \<le> (of_char c :: nat) \<and> (of_char c :: nat) \<le> 57)"

definition hex_val :: "char \<Rightarrow> nat option" where
  "hex_val c =
     (let n = (of_char c :: nat) in
      if 48 \<le> n \<and> n \<le> 57 then Some (n - 48)
      else if 65 \<le> n \<and> n \<le> 70 then Some (n - 55)
      else if 97 \<le> n \<and> n \<le> 102 then Some (n - 87)
      else None)"

definition hex4 :: "char \<Rightarrow> char \<Rightarrow> char \<Rightarrow> char \<Rightarrow> nat option" where
  "hex4 a b c d =
     (case (hex_val a, hex_val b, hex_val c, hex_val d) of
        (Some x, Some y, Some z, Some w) \<Rightarrow> Some (((x * 16 + y) * 16 + z) * 16 + w)
      | _ \<Rightarrow> None)"

text \<open>The character a one-letter escape stands for.\<close>

definition escape_char :: "char \<Rightarrow> char option" where
  "escape_char e =
     (if e = CHR 0x22 then Some (CHR 0x22)
      else if e = CHR 0x5C then Some (CHR 0x5C)
      else if e = CHR ''/'' then Some (CHR ''/'')
      else if e = CHR ''b'' then Some (CHR 0x08)
      else if e = CHR ''f'' then Some (CHR 0x0C)
      else if e = CHR ''n'' then Some (CHR 0x0A)
      else if e = CHR ''r'' then Some (CHR 0x0D)
      else if e = CHR ''t'' then Some (CHR 0x09)
      else None)"

text \<open>
  The content of a string literal is collected as bytes copied from the text and UTF-16
  units written as escapes of four hex digits. A high surrogate followed by a low one is one code point;
  every unit or code point is then written in UTF-8 (a lone surrogate in the same
  three-byte form, so distinct strings stay distinct).
\<close>

datatype str_item = Byte char | Unit nat

definition utf8 :: "nat \<Rightarrow> string" where
  "utf8 n =
     (if n < 0x80 then [char_of n]
      else if n < 0x800 then [char_of (0xC0 + n div 64), char_of (0x80 + n mod 64)]
      else if n < 0x10000 then
        [char_of (0xE0 + n div 4096), char_of (0x80 + n div 64 mod 64),
         char_of (0x80 + n mod 64)]
      else
        [char_of (0xF0 + n div 262144), char_of (0x80 + n div 4096 mod 64),
         char_of (0x80 + n div 64 mod 64), char_of (0x80 + n mod 64)])"

fun decode_items :: "str_item list \<Rightarrow> string" where
  "decode_items [] = []"
| "decode_items (Byte c # r) = c # decode_items r"
| "decode_items (Unit hi # Unit lo # r) =
     (if 0xD800 \<le> hi \<and> hi < 0xDC00 \<and> 0xDC00 \<le> lo \<and> lo < 0xE000
      then utf8 (0x10000 + (hi - 0xD800) * 1024 + (lo - 0xDC00)) @ decode_items r
      else utf8 hi @ decode_items (Unit lo # r))"
| "decode_items (Unit u # r) = utf8 u @ decode_items r"

text \<open>
  The states of the number grammar
  \<^verbatim>\<open>-? (0 | [1-9][0-9]*) (. [0-9]+)? ([eE] [+-]? [0-9]+)?\<close>.
\<close>

datatype nstate = NMinus | NZero | NInt | NDot | NFrac | NE | NSign | NExp

fun num_step :: "nstate \<Rightarrow> char \<Rightarrow> nstate option" where
  "num_step NMinus c = (if c = CHR ''0'' then Some NZero else if is_digit c then Some NInt else None)"
| "num_step NZero c =
     (if c = CHR ''.'' then Some NDot else if c = CHR ''e'' \<or> c = CHR ''E'' then Some NE else None)"
| "num_step NInt c =
     (if is_digit c then Some NInt else if c = CHR ''.'' then Some NDot
      else if c = CHR ''e'' \<or> c = CHR ''E'' then Some NE else None)"
| "num_step NDot c = (if is_digit c then Some NFrac else None)"
| "num_step NFrac c =
     (if is_digit c then Some NFrac else if c = CHR ''e'' \<or> c = CHR ''E'' then Some NE else None)"
| "num_step NE c =
     (if c = CHR ''+'' \<or> c = CHR ''-'' then Some NSign else if is_digit c then Some NExp else None)"
| "num_step NSign c = (if is_digit c then Some NExp else None)"
| "num_step NExp c = (if is_digit c then Some NExp else None)"

fun num_final :: "nstate \<Rightarrow> bool" where
  "num_final NZero = True"
| "num_final NInt = True"
| "num_final NFrac = True"
| "num_final NExp = True"
| "num_final _ = False"

text \<open>
  The tokens of a text, read left to right; \<open>None\<close> when the text has a character or a
  literal that JSON does not have. A number ends at white space, a comma or a closing
  bracket; after a number any other character makes the text invalid, whatever follows.
\<close>

fun tokens :: "token list \<Rightarrow> string \<Rightarrow> token list option"
  and in_string :: "token list \<Rightarrow> str_item list \<Rightarrow> string \<Rightarrow> token list option"
  and in_number :: "token list \<Rightarrow> nstate \<Rightarrow> string \<Rightarrow> string \<Rightarrow> token list option"
where
  "tokens acc [] = Some (rev acc)"
| "tokens acc (c # cs) =
     (if is_ws c then tokens acc cs
      else if c = CHR 0x7B then tokens (TLBrace # acc) cs
      else if c = CHR 0x7D then tokens (TRBrace # acc) cs
      else if c = CHR 0x5B then tokens (TLBrack # acc) cs
      else if c = CHR 0x5D then tokens (TRBrack # acc) cs
      else if c = CHR 0x3A then tokens (TColon # acc) cs
      else if c = CHR 0x2C then tokens (TComma # acc) cs
      else if c = CHR 0x22 then in_string acc [] cs
      else if c = CHR ''-'' then in_number acc NMinus [c] cs
      else if c = CHR ''0'' then in_number acc NZero [c] cs
      else if is_digit c then in_number acc NInt [c] cs
      else if c = CHR ''t'' then
        (case cs of
           c1 # c2 # c3 # rest \<Rightarrow>
             if [c1, c2, c3] = ''rue'' then tokens (TTrue # acc) rest else None
         | _ \<Rightarrow> None)
      else if c = CHR ''f'' then
        (case cs of
           c1 # c2 # c3 # c4 # rest \<Rightarrow>
             if [c1, c2, c3, c4] = ''alse'' then tokens (TFalse # acc) rest else None
         | _ \<Rightarrow> None)
      else if c = CHR ''n'' then
        (case cs of
           c1 # c2 # c3 # rest \<Rightarrow>
             if [c1, c2, c3] = ''ull'' then tokens (TNull # acc) rest else None
         | _ \<Rightarrow> None)
      else None)"
| "in_string acc items [] = None"
| "in_string acc items (c # cs) =
     (if c = CHR 0x22 then tokens (TStr (decode_items (rev items)) # acc) cs
      else if c = CHR 0x5C then
        (case cs of
           [] \<Rightarrow> None
         | e # rest \<Rightarrow>
             if e = CHR ''u'' then
               (case rest of
                  h1 # h2 # h3 # h4 # rest' \<Rightarrow>
                    (case hex4 h1 h2 h3 h4 of
                       Some u \<Rightarrow> in_string acc (Unit u # items) rest'
                     | None \<Rightarrow> None)
                | _ \<Rightarrow> None)
             else
               (case escape_char e of
                  Some b \<Rightarrow> in_string acc (Byte b # items) rest
                | None \<Rightarrow> None))
      else if (of_char c :: nat) < 0x20 then None
      else in_string acc (Byte c # items) cs)"
| "in_number acc st lexeme [] =
     (if num_final st then Some (rev (TNum lexeme # acc)) else None)"
| "in_number acc st lexeme (c # cs) =
     (case num_step st c of
        Some st' \<Rightarrow> in_number acc st' (lexeme @ [c]) cs
      | None \<Rightarrow>
          if \<not> num_final st then None
          else if is_ws c then tokens (TNum lexeme # acc) cs
          else if c = CHR 0x2C then tokens (TComma # TNum lexeme # acc) cs
          else if c = CHR 0x5D then tokens (TRBrack # TNum lexeme # acc) cs
          else if c = CHR 0x7D then tokens (TRBrace # TNum lexeme # acc) cs
          else None)"

text \<open>
  The grammar of values over the tokens, as a machine with a stack: the state says what
  may come next, a frame is an enclosing array or object waiting for the value being
  read. Elements and members are collected in reverse.
\<close>

datatype frame =
    FArr "json list"
  | FObj "(string \<times> json) list" string

datatype pstate =
    PValue
  | PArrStart
  | PArrNext "json list"
  | PObjStart
  | PObjKey "(string \<times> json) list"
  | PObjColon "(string \<times> json) list" string
  | PObjNext "(string \<times> json) list"
  | PDone json

fun plug :: "json \<Rightarrow> frame list \<Rightarrow> pstate \<times> frame list" where
  "plug v [] = (PDone v, [])"
| "plug v (FArr xs # stack) = (PArrNext (v # xs), stack)"
| "plug v (FObj ms k # stack) = (PObjNext ((k, v) # ms), stack)"

fun begin_value :: "token \<Rightarrow> frame list \<Rightarrow> (pstate \<times> frame list) option" where
  "begin_value TTrue stack = Some (plug (JBool True) stack)"
| "begin_value TFalse stack = Some (plug (JBool False) stack)"
| "begin_value TNull stack = Some (plug JNull stack)"
| "begin_value (TNum l) stack = Some (plug (JNum l) stack)"
| "begin_value (TStr s) stack = Some (plug (JStr s) stack)"
| "begin_value TLBrack stack = Some (PArrStart, stack)"
| "begin_value TLBrace stack = Some (PObjStart, stack)"
| "begin_value _ stack = None"

fun step :: "pstate \<Rightarrow> frame list \<Rightarrow> token \<Rightarrow> (pstate \<times> frame list) option" where
  "step PValue stack t = begin_value t stack"
| "step PArrStart stack t =
     (if t = TRBrack then Some (plug (JArr []) stack) else begin_value t (FArr [] # stack))"
| "step (PArrNext xs) stack t =
     (if t = TComma then Some (PValue, FArr xs # stack)
      else if t = TRBrack then Some (plug (JArr (rev xs)) stack)
      else None)"
| "step PObjStart stack t =
     (case t of
        TRBrace \<Rightarrow> Some (plug (JObj []) stack)
      | TStr k \<Rightarrow> Some (PObjColon [] k, stack)
      | _ \<Rightarrow> None)"
| "step (PObjKey ms) stack t =
     (case t of TStr k \<Rightarrow> Some (PObjColon ms k, stack) | _ \<Rightarrow> None)"
| "step (PObjColon ms k) stack t =
     (if t = TColon then Some (PValue, FObj ms k # stack) else None)"
| "step (PObjNext ms) stack t =
     (if t = TComma then Some (PObjKey ms, stack)
      else if t = TRBrace then Some (plug (JObj (rev ms)) stack)
      else None)"
| "step (PDone v) stack t = None"

fun run :: "pstate \<Rightarrow> frame list \<Rightarrow> token list \<Rightarrow> json option" where
  "run (PDone v) [] [] = Some v"
| "run st stack [] = None"
| "run st stack (t # ts) =
     (case step st stack t of
        None \<Rightarrow> None
      | Some (st', stack') \<Rightarrow> run st' stack' ts)"

text \<open>\<^verbatim>\<open>JSON.parse(text)\<close>: \<open>None\<close> is the SyntaxError it throws.\<close>

definition JSON_parse :: "string \<Rightarrow> json option" where
  "JSON_parse s = (case tokens [] s of None \<Rightarrow> None | Some ts \<Rightarrow> run PValue [] ts)"

text \<open>
  \<^verbatim>\<open>data.msg\<close> on a parsed value other than \<^verbatim>\<open>null\<close>: the member of an object,
  \<^verbatim>\<open>undefined\<close> (here \<open>None\<close>) for a missing member and for a value that is not an
  object.
\<close>

fun get_prop :: "json \<Rightarrow> string \<Rightarrow> json option" where
  "get_prop (JObj ms) k = map_of (rev ms) k"
| "get_prop _ k = None"

text \<open>
  The string a template literal puts in for a value (ECMAScript ToString): an array joins
  its elements with commas, printing \<^verbatim>\<open>null\<close> as nothing; an object prints as
  \<^verbatim>\<open>[object Object]\<close>; a number prints its numeral (see above).
\<close>

fun join_comma :: "string list \<Rightarrow> string" where
  "join_comma [] = []"
| "join_comma [s] = s"
| "join_comma (s # ss) = s @ '','' @ join_comma ss"

fun js_to_string :: "json \<Rightarrow> string" where
  "js_to_string JNull = ''null''"
| "js_to_string (JBool b) = (if b then ''true'' else ''false'')"
| "js_to_string (JNum l) = l"
| "js_to_string (JStr s) = s"
| "js_to_string (JArr xs) =
     join_comma (map (\<lambda>v. if v = JNull then [] else js_to_string v) xs)"
| "js_to_string (JObj ms) = ''[object Object]''"

fun interpolate :: "json option \<Rightarrow> string" where
  "interpolate None = ''undefined''"
| "interpolate (Some v) = js_to_string v"

subsection \<open>Messages, options, requests and responses\<close>

text \<open>
  \<^verbatim>\<open>FeishuMessage\<close>, field by field. The rich text content and the card are parsed JSON
  or, before \<^verbatim>\<open>sendMessage\<close> has parsed them, the string that encodes it: both are a
  \<^typ>\<open>json\<close>, the string being \<open>JStr\<close>. An optional field that is absent is \<open>None\<close>.
\<close>

datatype msg_type = Text | Post | Interactive

record zh_cn_body =
  zh_cn_title :: string
  zh_cn_content :: json

record post_body =
  zh_cn :: zh_cn_body

record message_content =
  content_text :: "string option"
  content_post :: "post_body option"
  content_card :: "json option"

record FeishuMessage =
  msg_type :: msg_type
  content :: message_content
  timestamp :: "string option"
  sign :: "string option"

text \<open>\<^verbatim>\<open>SendMessageOptions\<close> (from \<^verbatim>\<open>./base\<close>): the two fields the method reads.\<close>

record SendMessageOptions =
  webhook :: "string option"
  secret :: "string option"

text \<open>
  What \<^verbatim>\<open>fetch\<close> is called with. The body is \<^verbatim>\<open>JSON.stringify(message)\<close>; the request
  keeps the message that is serialised, whose present fields are the members of the body.
\<close>

record request =
  url :: string
  http_method :: string
  headers :: "(string \<times> string) list"
  body :: FeishuMessage

record response =
  ok :: bool
  body_text :: string

text \<open>
  The transport is a parameter: the response to a request, or \<open>None\<close> when
  \<^verbatim>\<open>fetch\<close> rejects (it does so with a TypeError).
\<close>

type_synonym transport = "request \<Rightarrow> response option"

text \<open>
  All that a call of \<^verbatim>\<open>sendMessage\<close> leaves behind: the value or the error of the
  promise, the caller's message object as the call leaves it, the requests made and the
  messages written to the console.
\<close>

record outcome =
  result :: "error + response"
  message_after :: FeishuMessage
  requests :: "request list"
  console :: "FeishuMessage list"

subsection \<open>sendMessage\<close>

text \<open>\<^verbatim>\<open>Math.floor(Date.now() / 1000).toString()\<close>, the clock in milliseconds.\<close>

fun digits :: "nat \<Rightarrow> string" where
  "digits n =
     (if n < 10 then [''0123456789'' ! n]
      else digits (n div 10) @ [''0123456789'' ! (n mod 10)])"

definition toString :: "int \<Rightarrow> string" where
  "toString i = (if i < 0 then CHR ''-'' # digits (nat (- i)) else digits (nat i))"

definition unix_seconds :: "int \<Rightarrow> string" where
  "unix_seconds now = toString (now div 1000)"

text \<open>\<^verbatim>\<open>typeof v === 'string'\<close> on a value that is there.\<close>

fun is_string :: "json \<Rightarrow> bool" where
  "is_string (JStr s) = True"
| "is_string _ = False"

text \<open>
  \<^verbatim>\<open>
  if (message.msg_type === "post" && typeof message.content.post?.zh_cn.content === 'string') {
    try { message.content.post.zh_cn.content = JSON.parse(message.content.post.zh_cn.content as any); }
    catch { throw new Error(...); }
  }
  \<close>
\<close>

definition parse_post_content :: "FeishuMessage \<Rightarrow> error + FeishuMessage" where
  "parse_post_content message =
     (if msg_type message = Post then
        (case content_post (content message) of
           None \<Rightarrow> Inr message
         | Some p \<Rightarrow>
             (case zh_cn_content (zh_cn p) of
                JStr s \<Rightarrow>
                  (case JSON_parse s of
                     None \<Rightarrow> Inl (Error post_format_error)
                   | Some v \<Rightarrow>
                       Inr (message\<lparr>content := (content message)\<lparr>content_post :=
                              Some (p\<lparr>zh_cn := (zh_cn p)\<lparr>zh_cn_content := v\<rparr>\<rparr>)\<rparr>\<rparr>))
              | _ \<Rightarrow> Inr message))
      else Inr message)"

text \<open>
  \<^verbatim>\<open>
  if (message.msg_type === "interactive" && typeof message.content.card === 'string') {
    try { message.content.card = JSON.parse(message.content.card); }
    catch { throw new Error(...); }
  }
  \<close>
\<close>

definition parse_card_content :: "FeishuMessage \<Rightarrow> error + FeishuMessage" where
  "parse_card_content message =
     (if msg_type message = Interactive then
        (case content_card (content message) of
           Some (JStr s) \<Rightarrow>
             (case JSON_parse s of
                None \<Rightarrow> Inl (Error card_format_error)
              | Some v \<Rightarrow> Inr (message\<lparr>content := (content message)\<lparr>content_card := Some v\<rparr>\<rparr>))
         | _ \<Rightarrow> Inr message)
      else Inr message)"

text \<open>
  \<^verbatim>\<open>
  if (secret) {
    const timestamp = Math.floor(Date.now() / 1000).toString()
    message.timestamp = timestamp
    message.sign = await generateFeishuSign(secret, timestamp)
  }
  \<close>
  The timestamp is stored before the signature is awaited, so a rejected signature leaves
  a message with the timestamp set.
\<close>

definition add_sign :: "int \<Rightarrow> string option \<Rightarrow> FeishuMessage \<Rightarrow> error option \<times> FeishuMessage" where
  "add_sign now secret_opt message =
     (case secret_opt of
        None \<Rightarrow> (None, message)
      | Some s \<Rightarrow>
          if s = [] then (None, message)
          else
            (let ts = unix_seconds now;
                 m = message\<lparr>timestamp := Some ts\<rparr>
             in case generateFeishuSign s ts of
                  Inl e \<Rightarrow> (Some e, m)
                | Inr sg \<Rightarrow> (None, m\<lparr>sign := Some sg\<rparr>)))"

text \<open>
  \<^verbatim>\<open>
  if (!response.ok) {
    const data = await response.json() as { code: number, msg: string }
    throw new Error(`...: ${data.msg}`)
  }
  return response
  \<close>
  \<^verbatim>\<open>response.json()\<close> rejects with a SyntaxError on a body that is not JSON; reading
  \<^verbatim>\<open>msg\<close> of \<^verbatim>\<open>null\<close> throws a TypeError.
\<close>

definition check_response :: "response \<Rightarrow> error + response" where
  "check_response r =
     (if \<not> ok r then
        (case JSON_parse (body_text r) of
           None \<Rightarrow> Inl SyntaxError
         | Some data \<Rightarrow>
             if data = JNull then Inl TypeError
             else Inl (Error (push_failed_prefix @ interpolate (get_prop data ''msg''))))
      else Inr r)"

definition failed :: "error \<Rightarrow> FeishuMessage \<Rightarrow> outcome" where
  "failed e message = \<lparr>result = Inl e, message_after = message, requests = [], console = []\<rparr>"

definition post_request :: "string \<Rightarrow> FeishuMessage \<Rightarrow> request" where
  "post_request w message =
     \<lparr>url = w, http_method = ''POST'', headers = [(''Content-Type'', ''application/json'')],
      body = message\<rparr>"

text \<open>
  The method, in the order of the source: the webhook check
  (\<^verbatim>\<open>if (!webhook) throw new Error(...)\<close>, which an absent and an empty webhook both
  fail), the two parsing steps, the signing step, \<^verbatim>\<open>console.log\<close> of the message, the
  one \<^verbatim>\<open>fetch\<close>, and the check of the response. An error thrown before the
  \<^verbatim>\<open>fetch\<close> leaves no request and nothing on the console.
\<close>

definition sendMessage :: "transport \<Rightarrow> int \<Rightarrow> FeishuMessage \<Rightarrow> SendMessageOptions \<Rightarrow> outcome" where
  "sendMessage fetch now message options =
     (case webhook options of
        None \<Rightarrow> failed (Error webhook_empty_error) message
      | Some w \<Rightarrow>
          if w = [] then failed (Error webhook_empty_error) message
          else
            (case parse_post_content message of
               Inl e \<Rightarrow> failed e message
             | Inr m1 \<Rightarrow>
                 (case parse_card_content m1 of
                    Inl e \<Rightarrow> failed e m1
                  | Inr m2 \<Rightarrow>
                      (case add_sign now (secret options) m2 of
                         (Some e, m3) \<Rightarrow> failed e m3
                       | (None, m3) \<Rightarrow>
                           \<lparr>result =
                              (case fetch (post_request w m3) of
                                 None \<Rightarrow> Inl TypeError
                               | Some r \<Rightarrow> check_response r),
                            message_after = m3, requests = [post_request w m3],
                            console = [m3]\<rparr>))))"

subsection \<open>A channel in use\<close>

text \<open>
  The calls a holder of the channel object can make. None of the three methods assigns to
  \<^verbatim>\<open>this\<close>: the channel after a call is the channel before it.
\<close>

datatype call =
    GetLabel
  | GetTemplates
  | SendMessage transport int FeishuMessage SendMessageOptions

fun after_call :: "FeishuChannel \<Rightarrow> call \<Rightarrow> FeishuChannel" where
  "after_call this GetLabel = this"
| "after_call this GetTemplates = this"
| "after_call this (SendMessage fetch now message options) = this"

subsection \<open>Sample inputs\<close>

text \<open>A transport that answers every request with the same response.\<close>

definition always_reply :: "response \<Rightarrow> transport" where
  "always_reply r req = Some r"

definition sample_webhook :: string where
  "sample_webhook = ''https://open.feishu.cn/open-apis/bot/v2/hook/sample''"

definition unsigned_options :: SendMessageOptions where
  "unsigned_options = \<lparr>webhook = Some sample_webhook, secret = None\<rparr>"

definition signed_options :: SendMessageOptions where
  "signed_options = \<lparr>webhook = Some sample_webhook, secret = Some ''abc''\<rparr>"

definition no_webhook_options :: SendMessageOptions where
  "no_webhook_options = \<lparr>webhook = None, secret = Some ''abc''\<rparr>"

definition text_hello :: FeishuMessage where
  "text_hello =
     \<lparr>msg_type = Text,
      content = \<lparr>content_text = Some ''hello'', content_post = None, content_card = None\<rparr>,
      timestamp = None, sign = None\<rparr>"

text \<open>A text message without its text.\<close>

definition text_absent :: FeishuMessage where
  "text_absent = text_hello\<lparr>content := (content text_hello)\<lparr>content_text := None\<rparr>\<rparr>"

text \<open>The text message as a signed call at 1700000000123 leaves it.\<close>

definition text_signed_once :: FeishuMessage where
  "text_signed_once =
     text_hello\<lparr>timestamp := Some ''1700000000'',
       sign := Some ''vEg8s1sKF2lvRc7VeEdo8hrgzIxZkX+ZgxZ3JifYMjE=''\<rparr>"

definition post_with :: "json \<Rightarrow> FeishuMessage" where
  "post_with c =
     \<lparr>msg_type = Post,
      content =
        \<lparr>content_text = None,
         content_post = Some \<lparr>zh_cn = \<lparr>zh_cn_title = ''news'', zh_cn_content = c\<rparr>\<rparr>,
         content_card = None\<rparr>,
      timestamp = None, sign = None\<rparr>"

definition card_with :: "json \<Rightarrow> FeishuMessage" where
  "card_with c =
     \<lparr>msg_type = Interactive,
      content = \<lparr>content_text = None, content_post = None, content_card = Some c\<rparr>,
      timestamp = None, sign = None\<rparr>"



definition ok_response :: response where
  \<open>ok_response = \<lparr>ok = True, body_text = ''{"code":0,"msg":"success"}''\<rparr>\<close>



section \<open>Evaluation of the reference vector\<close>

declare blocks.simps [simp del]
declare digits.simps [simp del]

lemma replicate_numeral: "replicate (numeral k) x = x # replicate (pred_numeral k) x"
  by (simp add: numeral_eq_Suc)

lemma compress_code_1:
  "compress
     [0x6a09e667, 0xbb67ae85, 0x3c6ef372, 0xa54ff53a, 0x510e527f, 0x9b05688c, 0x1f83d9ab, 0x5be0cd19]
     [0x57545536, 0x36363636, 0x36363636, 0x36363636, 0x36363636, 0x36363636, 0x36363636, 0x36363636,
      0x36363636, 0x36363636, 0x36363636, 0x36363636, 0x36363636, 0x36363636, 0x36363636,
      0x36363636] =
     [0x80683977, 0xfeffcf3a, 0x1e87147b, 0xd3133828, 0x614bcfce, 0x5c72cb77, 0x3c284607, 0x75a6b562]"
  by (simp add: compress_def K256_def next_w_def Let_def rotr_def shr_def not32_def add32_def
      Ch_def Maj_def bsig0_def bsig1_def ssig0_def ssig1_def)

lemma compress_code_2:
  "compress
     [0x80683977, 0xfeffcf3a, 0x1e87147b, 0xd3133828, 0x614bcfce, 0x5c72cb77, 0x3c284607, 0x75a6b562]
     [0x31373030, 0x30303030, 0x30300a61, 0x62638000, 0x00000000, 0x00000000, 0x00000000, 0x00000000,
      0x00000000, 0x00000000, 0x00000000, 0x00000000, 0x00000000, 0x00000000, 0x00000000,
      0x00000270] =
     [0x94907282, 0x7a08beaf, 0x322e9dae, 0x2a23cdb9, 0x540cb3a9, 0x17d01a0b, 0xdb88b724, 0xb8c340d5]"
  by (simp add: compress_def K256_def next_w_def Let_def rotr_def shr_def not32_def add32_def
      Ch_def Maj_def bsig0_def bsig1_def ssig0_def ssig1_def)

lemma compress_code_3:
  "compress
     [0x6a09e667, 0xbb67ae85, 0x3c6ef372, 0xa54ff53a, 0x510e527f, 0x9b05688c, 0x1f83d9ab, 0x5be0cd19]
     [0x3d3e3f5c, 0x5c5c5c5c, 0x5c5c5c5c, 0x5c5c5c5c, 0x5c5c5c5c, 0x5c5c5c5c, 0x5c5c5c5c, 0x5c5c5c5c,
      0x5c5c5c5c, 0x5c5c5c5c, 0x5c5c5c5c, 0x5c5c5c5c, 0x5c5c5c5c, 0x5c5c5c5c, 0x5c5c5c5c,
      0x5c5c5c5c] =
     [0xbb1b0d0b, 0x5f53510e, 0x813cfb87, 0xe3db0f39, 0x38cc6b99, 0x358577de, 0x5bec3415, 0x401f6b90]"
  by (simp add: compress_def K256_def next_w_def Let_def rotr_def shr_def not32_def add32_def
      Ch_def Maj_def bsig0_def bsig1_def ssig0_def ssig1_def)

lemma compress_code_4:
  "compress
     [0xbb1b0d0b, 0x5f53510e, 0x813cfb87, 0xe3db0f39, 0x38cc6b99, 0x358577de, 0x5bec3415, 0x401f6b90]
     [0x94907282, 0x7a08beaf, 0x322e9dae, 0x2a23cdb9, 0x540cb3a9, 0x17d01a0b, 0xdb88b724, 0xb8c340d5,
      0x80000000, 0x00000000, 0x00000000, 0x00000000, 0x00000000, 0x00000000, 0x00000000,
      0x00000300] =
     [0xbc483cb3, 0x5b0a1769, 0x6f45ced5, 0x784768f2, 0x1ae0cc8c, 0x59917f99, 0x83167726, 0x27d83231]"
  by (simp add: compress_def K256_def next_w_def Let_def rotr_def shr_def not32_def add32_def
      Ch_def Maj_def bsig0_def bsig1_def ssig0_def ssig1_def)

lemma sha256_code_inner:
  "sha256
     [0x57, 0x54, 0x55, 0x36, 0x36, 0x36, 0x36, 0x36, 0x36, 0x36, 0x36, 0x36, 0x36, 0x36, 0x36, 0x36,
      0x36, 0x36, 0x36, 0x36, 0x36, 0x36, 0x36, 0x36, 0x36, 0x36, 0x36, 0x36, 0x36, 0x36, 0x36,
      0x36, 0x36, 0x36, 0x36, 0x36, 0x36, 0x36, 0x36, 0x36, 0x36, 0x36, 0x36, 0x36, 0x36, 0x36,
      0x36, 0x36, 0x36, 0x36, 0x36, 0x36, 0x36, 0x36, 0x36, 0x36, 0x36, 0x36, 0x36, 0x36, 0x36,
      0x36, 0x36, 0x36, 0x31, 0x37, 0x30, 0x30, 0x30, 0x30, 0x30, 0x30, 0x30, 0x30, 0x0a, 0x61,
      0x62, 0x63] =
     [0x94, 0x90, 0x72, 0x82, 0x7a, 0x08, 0xbe, 0xaf, 0x32, 0x2e, 0x9d, 0xae, 0x2a, 0x23, 0xcd, 0xb9,
      0x54, 0x0c, 0xb3, 0xa9, 0x17, 0xd0, 0x1a, 0x0b, 0xdb, 0x88, 0xb7, 0x24, 0xb8, 0xc3, 0x40,
      0xd5]"
  by (simp add: sha256_def sha256_pad_def be64_def replicate_numeral blocks.simps H256_def
      bytes_of_word_def
      compress_code_1 compress_code_2)

lemma sha256_code_outer:
  "sha256
     [0x3d, 0x3e, 0x3f, 0x5c, 0x5c, 0x5c, 0x5c, 0x5c, 0x5c, 0x5c, 0x5c, 0x5c, 0x5c, 0x5c, 0x5c, 0x5c,
      0x5c, 0x5c, 0x5c, 0x5c, 0x5c, 0x5c, 0x5c, 0x5c, 0x5c, 0x5c, 0x5c, 0x5c, 0x5c, 0x5c, 0x5c,
      0x5c, 0x5c, 0x5c, 0x5c, 0x5c, 0x5c, 0x5c, 0x5c, 0x5c, 0x5c, 0x5c, 0x5c, 0x5c, 0x5c, 0x5c,
      0x5c, 0x5c, 0x5c, 0x5c, 0x5c, 0x5c, 0x5c, 0x5c, 0x5c, 0x5c, 0x5c, 0x5c, 0x5c, 0x5c, 0x5c,
      0x5c, 0x5c, 0x5c, 0x94, 0x90, 0x72, 0x82, 0x7a, 0x08, 0xbe, 0xaf, 0x32, 0x2e, 0x9d, 0xae,
      0x2a, 0x23, 0xcd, 0xb9, 0x54, 0x0c, 0xb3, 0xa9, 0x17, 0xd0, 0x1a, 0x0b, 0xdb, 0x88, 0xb7,
      0x24, 0xb8, 0xc3, 0x40, 0xd5] =
     [0xbc, 0x48, 0x3c, 0xb3, 0x5b, 0x0a, 0x17, 0x69, 0x6f, 0x45, 0xce, 0xd5, 0x78, 0x47, 0x68, 0xf2,
      0x1a, 0xe0, 0xcc, 0x8c, 0x59, 0x91, 0x7f, 0x99, 0x83, 0x16, 0x77, 0x26, 0x27, 0xd8, 0x32,
      0x31]"
  by (simp add: sha256_def sha256_pad_def be64_def replicate_numeral blocks.simps H256_def
      bytes_of_word_def
      compress_code_3 compress_code_4)

lemma hmac_sha256_code:
  "hmac_sha256 (encode ''abc'') (encode (''1700000000'' @ [CHR 0x0A] @ ''abc'')) =
     [0xbc, 0x48, 0x3c, 0xb3, 0x5b, 0x0a, 0x17, 0x69, 0x6f, 0x45, 0xce, 0xd5, 0x78, 0x47, 0x68, 0xf2,
      0x1a, 0xe0, 0xcc, 0x8c, 0x59, 0x91, 0x7f, 0x99, 0x83, 0x16, 0x77, 0x26, 0x27, 0xd8, 0x32,
      0x31]"
  unfolding hmac_sha256_def Let_def
  by (simp add: encode_def replicate_numeral sha256_code_inner sha256_code_outer)

lemma btoa_code:
  "btoa
     [0xbc, 0x48, 0x3c, 0xb3, 0x5b, 0x0a, 0x17, 0x69, 0x6f, 0x45, 0xce, 0xd5, 0x78, 0x47, 0x68, 0xf2,
      0x1a, 0xe0, 0xcc, 0x8c, 0x59, 0x91, 0x7f, 0x99, 0x83, 0x16, 0x77, 0x26, 0x27, 0xd8, 0x32,
      0x31] =
   ''vEg8s1sKF2lvRc7VeEdo8hrgzIxZkX+ZgxZ3JifYMjE=''"
  by (simp add: b64chars_def)

lemma compress_spec_1:
  "compress
     [0x6a09e667, 0xbb67ae85, 0x3c6ef372, 0xa54ff53a, 0x510e527f, 0x9b05688c, 0x1f83d9ab, 0x5be0cd19]
     [0x07010606, 0x06060606, 0x06063c57, 0x54553636, 0x36363636, 0x36363636, 0x36363636, 0x36363636,
      0x36363636, 0x36363636, 0x36363636, 0x36363636, 0x36363636, 0x36363636, 0x36363636,
      0x36363636] =
     [0x5ed7438d, 0x7b4ded18, 0x2dc4a336, 0xf7ca75ff, 0x14aa42e2, 0xb9b7ea83, 0xbfd790aa, 0x379a939a]"
  by (simp add: compress_def K256_def next_w_def Let_def rotr_def shr_def not32_def add32_def
      Ch_def Maj_def bsig0_def bsig1_def ssig0_def ssig1_def)

lemma compress_spec_2:
  "compress
     [0x5ed7438d, 0x7b4ded18, 0x2dc4a336, 0xf7ca75ff, 0x14aa42e2, 0xb9b7ea83, 0xbfd790aa, 0x379a939a]
     [0x61626380, 0x00000000, 0x00000000, 0x00000000, 0x00000000, 0x00000000, 0x00000000, 0x00000000,
      0x00000000, 0x00000000, 0x00000000, 0x00000000, 0x00000000, 0x00000000, 0x00000000,
      0x00000218] =
     [0x5c3a3e0a, 0xd34f827c, 0x5abf6a6e, 0xa3b019fd, 0x02d4458e, 0x068e19e4, 0xffe00e9b, 0x74b61923]"
  by (simp add: compress_def K256_def next_w_def Let_def rotr_def shr_def not32_def add32_def
      Ch_def Maj_def bsig0_def bsig1_def ssig0_def ssig1_def)

lemma compress_spec_3:
  "compress
     [0x6a09e667, 0xbb67ae85, 0x3c6ef372, 0xa54ff53a, 0x510e527f, 0x9b05688c, 0x1f83d9ab, 0x5be0cd19]
     [0x6d6b6c6c, 0x6c6c6c6c, 0x6c6c563d, 0x3e3f5c5c, 0x5c5c5c5c, 0x5c5c5c5c, 0x5c5c5c5c, 0x5c5c5c5c,
      0x5c5c5c5c, 0x5c5c5c5c, 0x5c5c5c5c, 0x5c5c5c5c, 0x5c5c5c5c, 0x5c5c5c5c, 0x5c5c5c5c,
      0x5c5c5c5c] =
     [0x49aa8a76, 0x24f09996, 0x564401ed, 0x476827a8, 0xce875a62, 0xfd38e6b4, 0x8a458747, 0x5a031e09]"
  by (simp add: compress_def K256_def next_w_def Let_def rotr_def shr_def not32_def add32_def
      Ch_def Maj_def bsig0_def bsig1_def ssig0_def ssig1_def)

lemma compress_spec_4:
  "compress
     [0x49aa8a76, 0x24f09996, 0x564401ed, 0x476827a8, 0xce875a62, 0xfd38e6b4, 0x8a458747, 0x5a031e09]
     [0x5c3a3e0a, 0xd34f827c, 0x5abf6a6e, 0xa3b019fd, 0x02d4458e, 0x068e19e4, 0xffe00e9b, 0x74b61923,
      0x80000000, 0x00000000, 0x00000000, 0x00000000, 0x00000000, 0x00000000, 0x00000000,
      0x00000300] =
     [0x0aef8ee2, 0x279b77ac, 0x345a8c8c, 0x30bb927f, 0x5c63aec3, 0xe2f2fa92, 0x39ea4925, 0xa4f97efa]"
  by (simp add: compress_def K256_def next_w_def Let_def rotr_def shr_def not32_def add32_def
      Ch_def Maj_def bsig0_def bsig1_def ssig0_def ssig1_def)

lemma sha256_spec_inner:
  "sha256
     [0x07, Suc 0, 0x06, 0x06, 0x06, 0x06, 0x06, 0x06, 0x06, 0x06, 0x3c, 0x57, 0x54, 0x55, 0x36,
      0x36, 0x36, 0x36, 0x36, 0x36, 0x36, 0x36, 0x36, 0x36, 0x36, 0x36, 0x36, 0x36, 0x36, 0x36,
      0x36, 0x36, 0x36, 0x36, 0x36, 0x36, 0x36, 0x36, 0x36, 0x36, 0x36, 0x36, 0x36, 0x36, 0x36,
      0x36, 0x36, 0x36, 0x36, 0x36, 0x36, 0x36, 0x36, 0x36, 0x36, 0x36, 0x36, 0x36, 0x36, 0x36,
      0x36, 0x36, 0x36, 0x36, 0x61, 0x62, 0x63] =
     [0x5c, 0x3a, 0x3e, 0x0a, 0xd3, 0x4f, 0x82, 0x7c, 0x5a, 0xbf, 0x6a, 0x6e, 0xa3, 0xb0, 0x19, 0xfd,
      0x02, 0xd4, 0x45, 0x8e, 0x06, 0x8e, 0x19, 0xe4, 0xff, 0xe0, 0x0e, 0x9b, 0x74, 0xb6, 0x19,
      0x23]"
  by (simp add: sha256_def sha256_pad_def be64_def replicate_numeral blocks.simps H256_def
      bytes_of_word_def
      compress_spec_1 compress_spec_2)

lemma sha256_spec_outer:
  "sha256
     [0x6d, 0x6b, 0x6c, 0x6c, 0x6c, 0x6c, 0x6c, 0x6c, 0x6c, 0x6c, 0x56, 0x3d, 0x3e, 0x3f, 0x5c, 0x5c,
      0x5c, 0x5c, 0x5c, 0x5c, 0x5c, 0x5c, 0x5c, 0x5c, 0x5c, 0x5c, 0x5c, 0x5c, 0x5c, 0x5c, 0x5c,
      0x5c, 0x5c, 0x5c, 0x5c, 0x5c, 0x5c, 0x5c, 0x5c, 0x5c, 0x5c, 0x5c, 0x5c, 0x5c, 0x5c, 0x5c,
      0x5c, 0x5c, 0x5c, 0x5c, 0x5c, 0x5c, 0x5c, 0x5c, 0x5c, 0x5c, 0x5c, 0x5c, 0x5c, 0x5c, 0x5c,
      0x5c, 0x5c, 0x5c, 0x5c, 0x3a, 0x3e, 0x0a, 0xd3, 0x4f, 0x82, 0x7c, 0x5a, 0xbf, 0x6a, 0x6e,
      0xa3, 0xb0, 0x19, 0xfd, 0x02, 0xd4, 0x45, 0x8e, 0x06, 0x8e, 0x19, 0xe4, 0xff, 0xe0, 0x0e,
      0x9b, 0x74, 0xb6, 0x19, 0x23] =
     [0x0a, 0xef, 0x8e, 0xe2, 0x27, 0x9b, 0x77, 0xac, 0x34, 0x5a, 0x8c, 0x8c, 0x30, 0xbb, 0x92, 0x7f,
      0x5c, 0x63, 0xae, 0xc3, 0xe2, 0xf2, 0xfa, 0x92, 0x39, 0xea, 0x49, 0x25, 0xa4, 0xf9, 0x7e,
      0xfa]"
  by (simp add: sha256_def sha256_pad_def be64_def replicate_numeral blocks.simps H256_def
      bytes_of_word_def
      compress_spec_3 compress_spec_4)

lemma hmac_sha256_spec:
  "hmac_sha256 (encode (''1700000000'' @ [CHR 0x0A] @ ''abc'')) (encode ''abc'') =
     [0x0a, 0xef, 0x8e, 0xe2, 0x27, 0x9b, 0x77, 0xac, 0x34, 0x5a, 0x8c, 0x8c, 0x30, 0xbb, 0x92, 0x7f,
      0x5c, 0x63, 0xae, 0xc3, 0xe2, 0xf2, 0xfa, 0x92, 0x39, 0xea, 0x49, 0x25, 0xa4, 0xf9, 0x7e,
      0xfa]"
  unfolding hmac_sha256_def Let_def
  by (simp add: encode_def replicate_numeral sha256_spec_inner sha256_spec_outer)

lemma btoa_spec:
  "btoa
     [0x0a, 0xef, 0x8e, 0xe2, 0x27, 0x9b, 0x77, 0xac, 0x34, 0x5a, 0x8c, 0x8c, 0x30, 0xbb, 0x92, 0x7f,
      0x5c, 0x63, 0xae, 0xc3, 0xe2, 0xf2, 0xfa, 0x92, 0x39, 0xea, 0x49, 0x25, 0xa4, 0xf9, 0x7e,
      0xfa] =
   ''Cu+O4iebd6w0WoyMMLuSf1xjrsPi8vqSOepJJaT5fvo=''"
  by (simp add: b64chars_def)

section \<open>The signature\<close>

lemma generateFeishuSign_nonempty:
  "s \<noteq> [] \<Longrightarrow>
   generateFeishuSign s ts =
     Inr (btoa (hmac_sha256 (encode s) (encode (ts @ [CHR 0x0A] @ s))))"
  by (simp add: generateFeishuSign_def importKey_def encode_def)

lemma sign_abc_1700000000:
  "generateFeishuSign ''abc'' ''1700000000'' = Inr ''vEg8s1sKF2lvRc7VeEdo8hrgzIxZkX+ZgxZ3JifYMjE=''"
proof -
  have "generateFeishuSign ''abc'' ''1700000000'' =
      Inr (btoa (hmac_sha256 (encode ''abc'') (encode (''1700000000'' @ [CHR 0x0A] @ ''abc''))))"
    by (rule generateFeishuSign_nonempty) simp
  then show ?thesis
    by (simp only: hmac_sha256_code btoa_code)
qed

text \<open>
  C1, as amended. For every non-empty secret \<open>s\<close> and every timestamp \<open>t\<close> the signing
  function returns the base64 form of HMAC-SHA256 with \<open>s\<close> as the key and
  \<open>t\<close>, line feed, \<open>s\<close> as the authenticated data; for the secret \<open>abc\<close> and the
  timestamp \<open>1700000000\<close> that is \<open>vEg8s1sKF2lvRc7VeEdo8hrgzIxZkX+ZgxZ3JifYMjE=\<close>.
\<close>

theorem generateFeishuSign_secret_is_key:
  "(s \<noteq> [] \<longrightarrow>
      generateFeishuSign s ts =
        Inr (btoa (hmac_sha256 (encode s) (encode (ts @ [CHR 0x0A] @ s)))))
   \<and> generateFeishuSign ''abc'' ''1700000000'' =
        Inr ''vEg8s1sKF2lvRc7VeEdo8hrgzIxZkX+ZgxZ3JifYMjE=''"
proof
  show "s \<noteq> [] \<longrightarrow>
      generateFeishuSign s ts =
        Inr (btoa (hmac_sha256 (encode s) (encode (ts @ [CHR 0x0A] @ s))))"
    by (simp add: generateFeishuSign_nonempty)
next
  have "generateFeishuSign ''abc'' ''1700000000'' =
      Inr (btoa (hmac_sha256 (encode ''abc'') (encode (''1700000000'' @ [CHR 0x0A] @ ''abc''))))"
    by (rule generateFeishuSign_nonempty) simp
  then show "generateFeishuSign ''abc'' ''1700000000'' =
      Inr ''vEg8s1sKF2lvRc7VeEdo8hrgzIxZkX+ZgxZ3JifYMjE=''"
    by (simp only: hmac_sha256_code btoa_code)
qed

theorem generateFeishuSign_secret_is_key_witness:
  "''abc'' \<noteq> [] \<and>
   generateFeishuSign ''abc'' ''1700000000'' =
     Inr (btoa (hmac_sha256 (encode ''abc'') (encode (''1700000000'' @ [CHR 0x0A] @ ''abc''))))"
  using generateFeishuSign_secret_is_key [of "''abc''" "''1700000000''"] by simp

text \<open>
  C1 as the specification states it, with the secret as the authenticated data and
  timestamp, line feed, secret as the key, fails: at \<open>abc\<close> and \<open>1700000000\<close> that
  construction gives \<open>Cu+O4iebd6w0WoyMMLuSf1xjrsPi8vqSOepJJaT5fvo=\<close>, which is not what the
  function returns.
\<close>

theorem generateFeishuSign_roles_counterexample:
  "generateFeishuSign ''abc'' ''1700000000'' \<noteq> Inr (spec_sign ''abc'' ''1700000000'')"
proof -
  have "generateFeishuSign ''abc'' ''1700000000'' =
      Inr (btoa (hmac_sha256 (encode ''abc'') (encode (''1700000000'' @ [CHR 0x0A] @ ''abc''))))"
    by (rule generateFeishuSign_nonempty) simp
  then have code: "generateFeishuSign ''abc'' ''1700000000'' =
      Inr ''vEg8s1sKF2lvRc7VeEdo8hrgzIxZkX+ZgxZ3JifYMjE=''"
    by (simp only: hmac_sha256_code btoa_code)
  have spec: "spec_sign ''abc'' ''1700000000'' = ''Cu+O4iebd6w0WoyMMLuSf1xjrsPi8vqSOepJJaT5fvo=''"
    by (simp only: spec_sign_def hmac_sha256_spec btoa_spec)
  show ?thesis
    unfolding code spec by simp
qed

section \<open>The static configuration\<close>

lemma after_call_same: "after_call this c = this"
  by (cases c) simp_all

lemma after_calls_same: "foldl after_call this cs = this"
  by (induction cs) (simp_all add: after_call_same)

text \<open>
  C7. Whatever calls were made on the channel before, in any number and order,
  \<open>getTemplates\<close> returns the same three templates: the sequence is fixed and not
  empty, and no call changes the configuration.
\<close>

theorem getTemplates_fixed:
  "getTemplates (foldl after_call new_FeishuChannel cs) =
     [text_template, post_template, interactive_template]
   \<and> getTemplates (foldl after_call new_FeishuChannel cs) \<noteq> []
   \<and> config (foldl after_call new_FeishuChannel cs) = config new_FeishuChannel"
  by (simp add: after_calls_same getTemplates_def new_FeishuChannel_def)

text \<open>The rich text placeholder of the configuration is a JSON text.\<close>

lemma post_content_placeholder_is_json: "JSON_parse post_content_placeholder \<noteq> None"
  by (simp add: JSON_parse_def is_ws_def is_digit_def post_content_placeholder_def)

text \<open>
  C8. Every template of the configuration has exactly one field whose component is
  hidden; the key of that field is \<open>msg_type\<close> and its default value is the type of the
  template.
\<close>

theorem hidden_field_fixes_msg_type:
  "\<forall>t \<in> set (getTemplates new_FeishuChannel).
     map key (hidden_fields t) = [''msg_type'']
     \<and> map defaultValue (hidden_fields t) = [Some (template_type t)]"
  by (simp add: getTemplates_def new_FeishuChannel_def hidden_fields_def
      text_template_def post_template_def interactive_template_def)

theorem hidden_field_fixes_msg_type_witness:
  "post_template \<in> set (getTemplates new_FeishuChannel)
   \<and> map key (hidden_fields post_template) = [''msg_type'']
   \<and> map defaultValue (hidden_fields post_template) = [Some ''post'']"
proof -
  have mem: "post_template \<in> set (getTemplates new_FeishuChannel)"
    by (simp add: getTemplates_def new_FeishuChannel_def)
  have ty: "template_type post_template = ''post''"
    by (simp add: post_template_def)
  from hidden_field_fixes_msg_type mem
  have "map key (hidden_fields post_template) = [''msg_type'']
     \<and> map defaultValue (hidden_fields post_template) = [Some (template_type post_template)]"
    by (rule bspec)
  with mem ty show ?thesis by simp
qed

section \<open>sendMessage\<close>

subsection \<open>The steps of the method\<close>

lemma error_texts_distinct:
  "webhook_empty_error \<noteq> post_format_error"
  "webhook_empty_error \<noteq> card_format_error"
  "post_format_error \<noteq> card_format_error"
  "push_failed_prefix @ x \<noteq> post_format_error"
  "push_failed_prefix @ x \<noteq> card_format_error"
  "push_failed_prefix @ x \<noteq> webhook_empty_error"
  by (simp_all add: webhook_empty_error_def post_format_error_def card_format_error_def
      push_failed_prefix_def)

lemma parse_post_content_other:
  "msg_type message \<noteq> Post \<Longrightarrow> parse_post_content message = Inr message"
  by (simp add: parse_post_content_def)

lemma parse_card_content_other:
  "msg_type message \<noteq> Interactive \<Longrightarrow> parse_card_content message = Inr message"
  by (simp add: parse_card_content_def)

lemma parse_post_content_structured:
  "content_post (content message) = Some p \<Longrightarrow> \<not> is_string (zh_cn_content (zh_cn p)) \<Longrightarrow>
   parse_post_content message = Inr message"
  by (cases "zh_cn_content (zh_cn p)") (simp_all add: parse_post_content_def)

lemma parse_card_content_structured:
  "content_card (content message) = Some c \<Longrightarrow> \<not> is_string c \<Longrightarrow>
   parse_card_content message = Inr message"
  by (cases c) (simp_all add: parse_card_content_def)

lemma parse_post_content_keeps:
  "parse_post_content message = Inr m \<Longrightarrow>
   msg_type m = msg_type message \<and> timestamp m = timestamp message \<and> sign m = sign message"
  by (auto simp: parse_post_content_def split: if_splits option.splits json.splits)

lemma parse_card_content_keeps:
  "parse_card_content message = Inr m \<Longrightarrow>
   msg_type m = msg_type message \<and> timestamp m = timestamp message \<and> sign m = sign message"
  by (auto simp: parse_card_content_def split: if_splits option.splits json.splits)

lemma add_sign_absent:
  "so = None \<or> so = Some [] \<Longrightarrow> add_sign now so message = (None, message)"
  by (auto simp: add_sign_def)

lemma add_sign_present:
  "s \<noteq> [] \<Longrightarrow>
   add_sign now (Some s) message =
     (None, message\<lparr>timestamp := Some (unix_seconds now),
        sign := Some (btoa (hmac_sha256 (encode s)
                  (encode (unix_seconds now @ [CHR 0x0A] @ s))))\<rparr>)"
  by (simp add: add_sign_def generateFeishuSign_nonempty Let_def)

lemma add_sign_never_fails: "fst (add_sign now so message) = None"
proof (cases so)
  case None
  then show ?thesis by (simp add: add_sign_absent)
next
  case (Some s)
  then show ?thesis
    by (cases "s = []") (simp_all add: add_sign_absent add_sign_present)
qed

lemma add_sign_content: "content (snd (add_sign now so message)) = content message"
proof (cases so)
  case None
  then show ?thesis by (simp add: add_sign_absent)
next
  case (Some s)
  then show ?thesis
    by (cases "s = []") (simp_all add: add_sign_absent add_sign_present)
qed

lemma check_response_error:
  "check_response r = Inl e \<Longrightarrow>
   e = SyntaxError \<or> e = TypeError \<or> (\<exists>x. e = Error (push_failed_prefix @ x))"
  by (auto simp: check_response_def split: if_splits option.splits)

text \<open>A call that gets past the webhook check and the two parsing steps.\<close>

lemma sendMessage_prepared:
  assumes "webhook options = Some w" and "w \<noteq> []"
    and "parse_post_content message = Inr m1"
    and "parse_card_content m1 = Inr m2"
  shows "sendMessage fetch now message options =
     \<lparr>result =
        (case fetch (post_request w (snd (add_sign now (secret options) m2))) of
           None \<Rightarrow> Inl TypeError
         | Some r \<Rightarrow> check_response r),
      message_after = snd (add_sign now (secret options) m2),
      requests = [post_request w (snd (add_sign now (secret options) m2))],
      console = [snd (add_sign now (secret options) m2)]\<rparr>"
proof -
  obtain m3 where m3: "add_sign now (secret options) m2 = (None, m3)"
    using add_sign_never_fails [of now "secret options" m2]
    by (cases "add_sign now (secret options) m2") simp
  show ?thesis
    using assms by (simp add: sendMessage_def m3)
qed


subsection \<open>The webhook check\<close>

text \<open>
  C2. When the webhook of the options is absent or the empty string, \<open>sendMessage\<close>
  fails with the error for the missing webhook (the specification's ConfigurationError),
  whatever the message, the secret, the clock and the transport are; it makes no request
  and leaves the message as it was.
\<close>

theorem sendMessage_without_webhook:
  "webhook options = None \<or> webhook options = Some [] \<Longrightarrow>
   result (sendMessage fetch now message options) = Inl (Error webhook_empty_error)
   \<and> requests (sendMessage fetch now message options) = []
   \<and> message_after (sendMessage fetch now message options) = message"
  by (auto simp: sendMessage_def failed_def)

theorem sendMessage_without_webhook_witness:
  "(webhook no_webhook_options = None \<or> webhook no_webhook_options = Some [])
   \<and> result (sendMessage (always_reply ok_response) 1700000000123 text_hello no_webhook_options)
       = Inl (Error webhook_empty_error)
   \<and> requests (sendMessage (always_reply ok_response) 1700000000123 text_hello no_webhook_options)
       = []
   \<and> message_after
        (sendMessage (always_reply ok_response) 1700000000123 text_hello no_webhook_options)
       = text_hello"
proof -
  have h: "webhook no_webhook_options = None \<or> webhook no_webhook_options = Some []"
    by (simp add: no_webhook_options_def)
  show ?thesis
    using h sendMessage_without_webhook
      [OF h, of "always_reply ok_response" 1700000000123 text_hello]
    by simp
qed

subsection \<open>Malformed payload fields\<close>

text \<open>
  C3. With a webhook that is not empty: a rich text message whose content is a string
  that is not JSON fails with the error for the rich text content, a card message whose
  card is a string that is not JSON fails with the error for the card; neither makes a
  request, and the two errors are different errors (both are the specification's
  PayloadFormatError, told apart by their text).
\<close>

theorem sendMessage_malformed_payload:
  "webhook options = Some w \<Longrightarrow> w \<noteq> [] \<Longrightarrow>
   (msg_type message = Post \<and> content_post (content message) = Some p
      \<and> zh_cn_content (zh_cn p) = JStr s \<and> JSON_parse s = None
    \<longrightarrow> result (sendMessage fetch now message options) = Inl (Error post_format_error)
        \<and> requests (sendMessage fetch now message options) = [])
   \<and> (msg_type message = Interactive \<and> content_card (content message) = Some (JStr s')
      \<and> JSON_parse s' = None
    \<longrightarrow> result (sendMessage fetch now message options) = Inl (Error card_format_error)
        \<and> requests (sendMessage fetch now message options) = [])
   \<and> Error post_format_error \<noteq> Error card_format_error"
proof (intro conjI impI)
  assume w: "webhook options = Some w" "w \<noteq> []"
  {
    assume a: "msg_type message = Post \<and> content_post (content message) = Some p
      \<and> zh_cn_content (zh_cn p) = JStr s \<and> JSON_parse s = None"
    then have "parse_post_content message = Inl (Error post_format_error)"
      by (simp add: parse_post_content_def)
    with w show "result (sendMessage fetch now message options) = Inl (Error post_format_error)"
      and "requests (sendMessage fetch now message options) = []"
      by (simp_all add: sendMessage_def failed_def)
  }
  {
    assume a: "msg_type message = Interactive \<and> content_card (content message) = Some (JStr s')
      \<and> JSON_parse s' = None"
    then have post: "parse_post_content message = Inr message"
      by (simp add: parse_post_content_other)
    from a have "parse_card_content message = Inl (Error card_format_error)"
      by (simp add: parse_card_content_def)
    with w post
    show "result (sendMessage fetch now message options) = Inl (Error card_format_error)"
      and "requests (sendMessage fetch now message options) = []"
      by (simp_all add: sendMessage_def failed_def)
  }
  show "Error post_format_error \<noteq> Error card_format_error"
    by (simp add: error_texts_distinct)
qed

lemma not_json_rejected: "JSON_parse ''not json'' = None"
  by (simp add: JSON_parse_def is_ws_def is_digit_def)

lemma cut_off_card_rejected: \<open>JSON_parse ''{"config":'' = None\<close>
  by (simp add: JSON_parse_def is_ws_def is_digit_def)

theorem sendMessage_malformed_payload_witness:
  \<open>webhook unsigned_options = Some sample_webhook \<and> sample_webhook \<noteq> []
   \<and> JSON_parse ''not json'' = None
   \<and> result (sendMessage (always_reply ok_response) 1700000000123
         (post_with (JStr ''not json'')) unsigned_options) = Inl (Error post_format_error)
   \<and> requests (sendMessage (always_reply ok_response) 1700000000123
         (post_with (JStr ''not json'')) unsigned_options) = []
   \<and> JSON_parse ''{"config":'' = None
   \<and> result (sendMessage (always_reply ok_response) 1700000000123
         (card_with (JStr ''{"config":'')) unsigned_options) = Inl (Error card_format_error)
   \<and> requests (sendMessage (always_reply ok_response) 1700000000123
         (card_with (JStr ''{"config":'')) unsigned_options) = []\<close>
proof -
  have w: "webhook unsigned_options = Some sample_webhook"
    by (simp add: unsigned_options_def)
  have ne: "sample_webhook \<noteq> []"
    by (simp add: sample_webhook_def)
  have post: \<open>msg_type (post_with (JStr ''not json'')) = Post
      \<and> content_post (content (post_with (JStr ''not json'')))
          = Some \<lparr>zh_cn = \<lparr>zh_cn_title = ''news'', zh_cn_content = JStr ''not json''\<rparr>\<rparr>
      \<and> zh_cn_content (zh_cn \<lparr>zh_cn = \<lparr>zh_cn_title = ''news'',
            zh_cn_content = JStr ''not json''\<rparr>\<rparr>) = JStr ''not json''
      \<and> JSON_parse ''not json'' = None\<close>
    by (simp add: post_with_def not_json_rejected)
  have card: \<open>msg_type (card_with (JStr ''{"config":'')) = Interactive
      \<and> content_card (content (card_with (JStr ''{"config":''))) = Some (JStr ''{"config":'')
      \<and> JSON_parse ''{"config":'' = None\<close>
    by (simp add: card_with_def cut_off_card_rejected)
  from sendMessage_malformed_payload [OF w ne, of "post_with (JStr ''not json'')" _ _
      "always_reply ok_response" 1700000000123] post
  have r1: "result (sendMessage (always_reply ok_response) 1700000000123
         (post_with (JStr ''not json'')) unsigned_options) = Inl (Error post_format_error)
      \<and> requests (sendMessage (always_reply ok_response) 1700000000123
         (post_with (JStr ''not json'')) unsigned_options) = []"
    by blast
  from sendMessage_malformed_payload [OF w ne, of \<open>card_with (JStr ''{"config":'')\<close> _ _
      "always_reply ok_response" 1700000000123] card
  have r2: \<open>result (sendMessage (always_reply ok_response) 1700000000123
         (card_with (JStr ''{"config":'')) unsigned_options) = Inl (Error card_format_error)
      \<and> requests (sendMessage (always_reply ok_response) 1700000000123
         (card_with (JStr ''{"config":'')) unsigned_options) = []\<close>
    by blast
  from w ne r1 r2 post card show ?thesis by blast
qed

subsection \<open>Signing\<close>

lemma unix_seconds_sample: "unix_seconds 1700000000123 = ''1700000000''"
  by (simp add: unix_seconds_def toString_def digits.simps)

text \<open>
  C4 as stated fails in its first half. The interface has the timestamp and the signature
  as optional fields of a message, and \<open>sendMessage\<close> never removes them: a message
  that a signed call has been made with keeps both, and a later call without a secret
  sends them as they are.
\<close>

theorem unsigned_body_counterexample:
  "message_after (sendMessage (always_reply ok_response) 1700000000123 text_hello
      signed_options) = text_signed_once
   \<and> secret unsigned_options = None
   \<and> requests (sendMessage (always_reply ok_response) 1700000300000 text_signed_once
         unsigned_options) = [post_request sample_webhook text_signed_once]
   \<and> timestamp (body (post_request sample_webhook text_signed_once)) = Some ''1700000000''
   \<and> sign (body (post_request sample_webhook text_signed_once))
       = Some ''vEg8s1sKF2lvRc7VeEdo8hrgzIxZkX+ZgxZ3JifYMjE=''"
proof -
  have first: "message_after (sendMessage (always_reply ok_response) 1700000000123 text_hello
      signed_options) = text_signed_once"
    by (simp add: sendMessage_def signed_options_def sample_webhook_def text_hello_def
        text_signed_once_def parse_post_content_def parse_card_content_def add_sign_def
        unix_seconds_sample sign_abc_1700000000)
  have second: "requests (sendMessage (always_reply ok_response) 1700000300000
      text_signed_once unsigned_options) = [post_request sample_webhook text_signed_once]"
    by (simp add: sendMessage_def unsigned_options_def sample_webhook_def text_hello_def
        text_signed_once_def parse_post_content_def parse_card_content_def add_sign_def)
  from first second show ?thesis
    by (simp add: unsigned_options_def post_request_def text_signed_once_def)
qed

text \<open>
  C4, as amended. For a message whose string-encoded fields parse, and a webhook that is
  not empty, exactly one request is made. When the secret is absent or empty its body is
  the parsed message with nothing added: it has the timestamp and the signature of the
  caller's message, so none when the caller gave none. When the secret is present and
  not empty the body is the parsed message with the timestamp set to the clock in whole
  seconds, in decimal, and the signature set to \<open>generateFeishuSign\<close> of that secret and
  that same timestamp.
\<close>

theorem sendMessage_signing:
  "webhook options = Some w \<Longrightarrow> w \<noteq> [] \<Longrightarrow>
   parse_post_content message = Inr m1 \<Longrightarrow> parse_card_content m1 = Inr m2 \<Longrightarrow>
   (secret options = None \<or> secret options = Some []
    \<longrightarrow> requests (sendMessage fetch now message options) = [post_request w m2]
        \<and> body (post_request w m2) = m2
        \<and> timestamp m2 = timestamp message \<and> sign m2 = sign message)
   \<and> (secret options = Some s \<and> s \<noteq> []
    \<longrightarrow> (\<exists>sg. generateFeishuSign s (unix_seconds now) = Inr sg
          \<and> requests (sendMessage fetch now message options) =
              [post_request w (m2\<lparr>timestamp := Some (unix_seconds now), sign := Some sg\<rparr>)]
          \<and> timestamp (body (post_request w
                (m2\<lparr>timestamp := Some (unix_seconds now), sign := Some sg\<rparr>)))
              = Some (unix_seconds now)
          \<and> sign (body (post_request w
                (m2\<lparr>timestamp := Some (unix_seconds now), sign := Some sg\<rparr>))) = Some sg))"
proof (intro conjI impI)
  assume w: "webhook options = Some w" "w \<noteq> []"
    and p: "parse_post_content message = Inr m1" "parse_card_content m1 = Inr m2"
  note sent = sendMessage_prepared [OF w p, of fetch now]
  {
    assume "secret options = None \<or> secret options = Some []"
    then have "add_sign now (secret options) m2 = (None, m2)"
      by (rule add_sign_absent)
    then show "requests (sendMessage fetch now message options) = [post_request w m2]"
      by (simp add: sent)
    show "body (post_request w m2) = m2"
      by (simp add: post_request_def)
    from parse_post_content_keeps [OF p(1)] parse_card_content_keeps [OF p(2)]
    show "timestamp m2 = timestamp message" and "sign m2 = sign message"
      by simp_all
  }
  {
    assume a: "secret options = Some s \<and> s \<noteq> []"
    let ?sg = "btoa (hmac_sha256 (encode s) (encode (unix_seconds now @ [CHR 0x0A] @ s)))"
    from a have g: "generateFeishuSign s (unix_seconds now) = Inr ?sg"
      by (simp add: generateFeishuSign_nonempty)
    from a have "add_sign now (secret options) m2 =
        (None, m2\<lparr>timestamp := Some (unix_seconds now), sign := Some ?sg\<rparr>)"
      by (simp add: add_sign_present)
    then have "requests (sendMessage fetch now message options) =
        [post_request w (m2\<lparr>timestamp := Some (unix_seconds now), sign := Some ?sg\<rparr>)]"
      by (simp add: sent)
    with g show "\<exists>sg. generateFeishuSign s (unix_seconds now) = Inr sg
          \<and> requests (sendMessage fetch now message options) =
              [post_request w (m2\<lparr>timestamp := Some (unix_seconds now), sign := Some sg\<rparr>)]
          \<and> timestamp (body (post_request w
                (m2\<lparr>timestamp := Some (unix_seconds now), sign := Some sg\<rparr>)))
              = Some (unix_seconds now)
          \<and> sign (body (post_request w
                (m2\<lparr>timestamp := Some (unix_seconds now), sign := Some sg\<rparr>))) = Some sg"
      by (intro exI [of _ ?sg]) (simp add: post_request_def)
  }
qed

theorem sendMessage_signing_witness:
  "webhook unsigned_options = Some sample_webhook \<and> webhook signed_options = Some sample_webhook
   \<and> sample_webhook \<noteq> []
   \<and> parse_post_content text_hello = Inr text_hello
   \<and> parse_card_content text_hello = Inr text_hello
   \<and> secret unsigned_options = None
   \<and> requests (sendMessage (always_reply ok_response) 1700000000123 text_hello unsigned_options)
       = [post_request sample_webhook text_hello]
   \<and> timestamp text_hello = None \<and> sign text_hello = None
   \<and> secret signed_options = Some ''abc'' \<and> ''abc'' \<noteq> []
   \<and> requests (sendMessage (always_reply ok_response) 1700000000123 text_hello signed_options)
       = [post_request sample_webhook
            (text_hello\<lparr>timestamp := Some ''1700000000'',
               sign := Some ''vEg8s1sKF2lvRc7VeEdo8hrgzIxZkX+ZgxZ3JifYMjE=''\<rparr>)]"
proof -
  have w1: "webhook unsigned_options = Some sample_webhook"
    and w2: "webhook signed_options = Some sample_webhook"
    and s1: "secret unsigned_options = None"
    and s2: "secret signed_options = Some ''abc''"
    by (simp_all add: unsigned_options_def signed_options_def)
  have ne: "sample_webhook \<noteq> []"
    by (simp add: sample_webhook_def)
  have p1: "parse_post_content text_hello = Inr text_hello"
    and p2: "parse_card_content text_hello = Inr text_hello"
    and t: "timestamp text_hello = None" "sign text_hello = None"
    by (simp_all add: text_hello_def parse_post_content_def parse_card_content_def)
  from sendMessage_signing [OF w1 ne p1 p2, of "always_reply ok_response" 1700000000123] s1
  have r1: "requests (sendMessage (always_reply ok_response) 1700000000123 text_hello
      unsigned_options) = [post_request sample_webhook text_hello]"
    by simp
  from sendMessage_signing [OF w2 ne p1 p2, of "always_reply ok_response" 1700000000123
      "''abc''"] s2
  have r2: "requests (sendMessage (always_reply ok_response) 1700000000123 text_hello
      signed_options) = [post_request sample_webhook
            (text_hello\<lparr>timestamp := Some ''1700000000'',
               sign := Some ''vEg8s1sKF2lvRc7VeEdo8hrgzIxZkX+ZgxZ3JifYMjE=''\<rparr>)]"
    by (auto simp: unix_seconds_sample sign_abc_1700000000)
  from w1 w2 ne p1 p2 s1 s2 t r1 r2 show ?thesis by simp
qed

subsection \<open>A response that reports failure\<close>






subsection \<open>Fields that are not parsed\<close>

lemma sendMessage_no_parsing:
  assumes post: "parse_post_content message = Inr message"
    and card: "parse_card_content message = Inr message"
  shows "result (sendMessage fetch now message options) \<noteq> Inl (Error post_format_error)"
    and "result (sendMessage fetch now message options) \<noteq> Inl (Error card_format_error)"
    and "content (message_after (sendMessage fetch now message options)) = content message"
proof -
  have "result (sendMessage fetch now message options) \<noteq> Inl (Error post_format_error)
    \<and> result (sendMessage fetch now message options) \<noteq> Inl (Error card_format_error)
    \<and> content (message_after (sendMessage fetch now message options)) = content message"
  proof (cases "webhook options = None \<or> webhook options = Some []")
    case True
    then have "sendMessage fetch now message options = failed (Error webhook_empty_error) message"
      by (auto simp: sendMessage_def)
    then show ?thesis
      by (simp add: failed_def error_texts_distinct)
  next
    case False
    then obtain w where w: "webhook options = Some w" "w \<noteq> []"
      by (cases "webhook options") auto
    note sent = sendMessage_prepared [OF w post card, of fetch now]
    have "result (sendMessage fetch now message options) \<noteq> Inl (Error x)"
      if "x = post_format_error \<or> x = card_format_error" for x
    proof (cases "fetch (post_request w (snd (add_sign now (secret options) message)))")
      case None
      then show ?thesis by (simp add: sent)
    next
      case (Some r)
      show ?thesis
      proof
        assume "result (sendMessage fetch now message options) = Inl (Error x)"
        with Some have "check_response r = Inl (Error x)"
          by (simp add: sent)
        from check_response_error [OF this] that show False
          by (auto simp: error_texts_distinct)
      qed
    qed
    then show ?thesis
      by (simp add: sent add_sign_content)
  qed
  then show "result (sendMessage fetch now message options) \<noteq> Inl (Error post_format_error)"
    and "result (sendMessage fetch now message options) \<noteq> Inl (Error card_format_error)"
    and "content (message_after (sendMessage fetch now message options)) = content message"
    by simp_all
qed

text \<open>
  C6. A rich text message whose content is not a string, and a card message whose card is
  not a string, pass the parsing step unchanged: nothing is parsed, \<open>sendMessage\<close> does
  not fail with the error of that field, whatever the options and the transport are, and
  the content of the message after the call is the content before it.
\<close>

theorem structured_fields_not_parsed:
  "(msg_type message = Post \<and> content_post (content message) = Some p
      \<and> \<not> is_string (zh_cn_content (zh_cn p))
    \<longrightarrow> parse_post_content message = Inr message
        \<and> result (sendMessage fetch now message options) \<noteq> Inl (Error post_format_error)
        \<and> content (message_after (sendMessage fetch now message options)) = content message)
   \<and> (msg_type message = Interactive \<and> content_card (content message) = Some c
      \<and> \<not> is_string c
    \<longrightarrow> parse_card_content message = Inr message
        \<and> result (sendMessage fetch now message options) \<noteq> Inl (Error card_format_error)
        \<and> content (message_after (sendMessage fetch now message options)) = content message)"
proof (intro conjI impI)
  {
    assume a: "msg_type message = Post \<and> content_post (content message) = Some p
      \<and> \<not> is_string (zh_cn_content (zh_cn p))"
    then have post: "parse_post_content message = Inr message"
      by (simp add: parse_post_content_structured)
    from a have card: "parse_card_content message = Inr message"
      by (simp add: parse_card_content_other)
    show "parse_post_content message = Inr message"
      by (rule post)
    show "result (sendMessage fetch now message options) \<noteq> Inl (Error post_format_error)"
      by (rule sendMessage_no_parsing [OF post card])
    show "content (message_after (sendMessage fetch now message options)) = content message"
      by (rule sendMessage_no_parsing [OF post card])
  }
  {
    assume a: "msg_type message = Interactive \<and> content_card (content message) = Some c
      \<and> \<not> is_string c"
    then have post: "parse_post_content message = Inr message"
      by (simp add: parse_post_content_other)
    from a have card: "parse_card_content message = Inr message"
      by (simp add: parse_card_content_structured)
    show "parse_card_content message = Inr message"
      by (rule card)
    show "result (sendMessage fetch now message options) \<noteq> Inl (Error card_format_error)"
      by (rule sendMessage_no_parsing [OF post card])
    show "content (message_after (sendMessage fetch now message options)) = content message"
      by (rule sendMessage_no_parsing [OF post card])
  }
qed

theorem structured_fields_not_parsed_witness:
  "msg_type (post_with (JArr [])) = Post
   \<and> content_post (content (post_with (JArr [])))
       = Some \<lparr>zh_cn = \<lparr>zh_cn_title = ''news'', zh_cn_content = JArr []\<rparr>\<rparr>
   \<and> \<not> is_string (zh_cn_content (zh_cn \<lparr>zh_cn = \<lparr>zh_cn_title = ''news'',
          zh_cn_content = JArr []\<rparr>\<rparr>))
   \<and> parse_post_content (post_with (JArr [])) = Inr (post_with (JArr []))
   \<and> result (sendMessage (always_reply ok_response) 1700000000123 (post_with (JArr []))
         unsigned_options) \<noteq> Inl (Error post_format_error)
   \<and> msg_type (card_with (JObj [])) = Interactive
   \<and> content_card (content (card_with (JObj []))) = Some (JObj [])
   \<and> \<not> is_string (JObj [])
   \<and> parse_card_content (card_with (JObj [])) = Inr (card_with (JObj []))
   \<and> result (sendMessage (always_reply ok_response) 1700000000123 (card_with (JObj []))
         unsigned_options) \<noteq> Inl (Error card_format_error)"
proof -
  have post: "msg_type (post_with (JArr [])) = Post
      \<and> content_post (content (post_with (JArr [])))
          = Some \<lparr>zh_cn = \<lparr>zh_cn_title = ''news'', zh_cn_content = JArr []\<rparr>\<rparr>
      \<and> \<not> is_string (zh_cn_content (zh_cn \<lparr>zh_cn = \<lparr>zh_cn_title = ''news'',
          zh_cn_content = JArr []\<rparr>\<rparr>))"
    by (simp add: post_with_def)
  have card: "msg_type (card_with (JObj [])) = Interactive
      \<and> content_card (content (card_with (JObj []))) = Some (JObj [])
      \<and> \<not> is_string (JObj [])"
    by (simp add: card_with_def)
  from structured_fields_not_parsed [of "post_with (JArr [])" _
      "always_reply ok_response" 1700000000123 unsigned_options] post
  have r1: "parse_post_content (post_with (JArr [])) = Inr (post_with (JArr []))
      \<and> result (sendMessage (always_reply ok_response) 1700000000123 (post_with (JArr []))
         unsigned_options) \<noteq> Inl (Error post_format_error)"
    by blast
  from structured_fields_not_parsed [of "card_with (JObj [])" _
      "always_reply ok_response" 1700000000123 unsigned_options] card
  have r2: "parse_card_content (card_with (JObj [])) = Inr (card_with (JObj []))
      \<and> result (sendMessage (always_reply ok_response) 1700000000123 (card_with (JObj []))
         unsigned_options) \<noteq> Inl (Error card_format_error)"
    by blast
  from post card r1 r2 show ?thesis by blast
qed

text \<open>
  C10. A text message, with a webhook that is not empty, passes both parsing steps
  unchanged whatever its text is, also when it has none; the call does not fail with
  either of the two payload errors, and it makes its one request, with the message after
  the signing step as the body.
\<close>

theorem text_message_not_parsed:
  "msg_type message = Text \<Longrightarrow> webhook options = Some w \<Longrightarrow> w \<noteq> [] \<Longrightarrow>
   parse_post_content message = Inr message
   \<and> parse_card_content message = Inr message
   \<and> result (sendMessage fetch now message options) \<noteq> Inl (Error post_format_error)
   \<and> result (sendMessage fetch now message options) \<noteq> Inl (Error card_format_error)
   \<and> requests (sendMessage fetch now message options)
       = [post_request w (snd (add_sign now (secret options) message))]"
proof -
  assume t: "msg_type message = Text" and w: "webhook options = Some w" "w \<noteq> []"
  from t have post: "parse_post_content message = Inr message"
    by (simp add: parse_post_content_other)
  from t have card: "parse_card_content message = Inr message"
    by (simp add: parse_card_content_other)
  have "requests (sendMessage fetch now message options)
       = [post_request w (snd (add_sign now (secret options) message))]"
    by (simp add: sendMessage_prepared [OF w post card])
  with post card sendMessage_no_parsing [OF post card, of fetch now options]
  show ?thesis by simp
qed

theorem text_message_not_parsed_witness:
  "msg_type text_absent = Text \<and> content_text (content text_absent) = None
   \<and> webhook unsigned_options = Some sample_webhook \<and> sample_webhook \<noteq> []
   \<and> parse_post_content text_absent = Inr text_absent
   \<and> parse_card_content text_absent = Inr text_absent
   \<and> result (sendMessage (always_reply ok_response) 1700000000123 text_absent unsigned_options)
       \<noteq> Inl (Error post_format_error)
   \<and> result (sendMessage (always_reply ok_response) 1700000000123 text_absent unsigned_options)
       \<noteq> Inl (Error card_format_error)
   \<and> requests (sendMessage (always_reply ok_response) 1700000000123 text_absent unsigned_options)
       = [post_request sample_webhook text_absent]"
proof -
  have t: "msg_type text_absent = Text"
    and n: "content_text (content text_absent) = None"
    by (simp_all add: text_absent_def text_hello_def)
  have w: "webhook unsigned_options = Some sample_webhook"
    and s: "secret unsigned_options = None"
    by (simp_all add: unsigned_options_def)
  have ne: "sample_webhook \<noteq> []"
    by (simp add: sample_webhook_def)
  have a: "snd (add_sign 1700000000123 (secret unsigned_options) text_absent) = text_absent"
    by (simp add: s add_sign_def)
  from text_message_not_parsed [OF t w ne, of "always_reply ok_response" 1700000000123]
    t n w ne a
  show ?thesis by simp
qed

subsection \<open>The message after a failed delivery\<close>





end
